theory Spec2Isabelle
  imports Complex_Main "HOL-Library.Word"
begin

section \<open>JavaScript values used by the client\<close>

subsection \<open>Numbers\<close>

text \<open>
  A JavaScript number is a double. The client only compares numbers, rounds them, and adds
  two integers (the clock in seconds and a TTL that has passed the 32-bit range check), so a
  finite number is kept as the rational it denotes; \<open>NaN\<close> and the two infinities are
  separate values. Negative zero is identified with zero: both are falsy and compare alike.
\<close>

datatype jsnum = Fin rat | NaN | PosInf | NegInf

text \<open>\<^verbatim>\<open>a < b\<close> on numbers: false as soon as one side is NaN.\<close>

fun js_lt :: "jsnum \<Rightarrow> jsnum \<Rightarrow> bool" where
  "js_lt NaN _ = False"
| "js_lt _ NaN = False"
| "js_lt (Fin a) (Fin b) = (a < b)"
| "js_lt (Fin _) PosInf = True"
| "js_lt (Fin _) NegInf = False"
| "js_lt PosInf _ = False"
| "js_lt NegInf NegInf = False"
| "js_lt NegInf _ = True"

text \<open>\<^verbatim>\<open>a > b\<close> is \<^verbatim>\<open>b < a\<close>; \<^verbatim>\<open>a <= b\<close> is neither \<^verbatim>\<open>b < a\<close> nor a NaN.\<close>

definition js_gt :: "jsnum \<Rightarrow> jsnum \<Rightarrow> bool" where
  "js_gt a b = js_lt b a"

definition js_le :: "jsnum \<Rightarrow> jsnum \<Rightarrow> bool" where
  "js_le a b = (a \<noteq> NaN \<and> b \<noteq> NaN \<and> \<not> js_lt b a)"

fun js_add :: "jsnum \<Rightarrow> jsnum \<Rightarrow> jsnum" where
  "js_add NaN _ = NaN"
| "js_add _ NaN = NaN"
| "js_add (Fin a) (Fin b) = Fin (a + b)"
| "js_add (Fin _) PosInf = PosInf"
| "js_add (Fin _) NegInf = NegInf"
| "js_add PosInf NegInf = NaN"
| "js_add PosInf _ = PosInf"
| "js_add NegInf PosInf = NaN"
| "js_add NegInf _ = NegInf"

text \<open>\<^verbatim>\<open>Number.isNaN\<close>, the truthiness of a number, and \<^verbatim>\<open>Math.round\<close>
  (nearest integer, a tie going up).\<close>

definition isNaN :: "jsnum \<Rightarrow> bool" where
  "isNaN x = (x = NaN)"

definition truthy_num :: "jsnum \<Rightarrow> bool" where
  "truthy_num x = (x \<noteq> NaN \<and> x \<noteq> Fin 0)"

fun Math_round :: "jsnum \<Rightarrow> jsnum" where
  "Math_round (Fin q) = Fin (of_int \<lfloor>q + 1 / 2\<rfloor>)"
| "Math_round x = x"

subsection \<open>Strings\<close>

text \<open>
  A JavaScript string is a sequence of UTF-16 code units; \<^verbatim>\<open>s.length\<close> counts code units.
  \<open>ascii\<close> embeds the ASCII literals of the source.
\<close>

type_synonym js_string = "16 word list"
type_synonym bytes = "8 word list"

definition ascii :: "string \<Rightarrow> js_string" where
  "ascii s = map (\<lambda>c. of_nat (of_char c)) s"

text \<open>
  \<^verbatim>\<open>textEncoder.encode(s).byteLength\<close>: the length of the UTF-8 encoding. A code unit
  below 0x80 takes one byte, below 0x800 two; a surrogate pair is one code point of four
  bytes; any other unit, a lone surrogate included (encoded as U+FFFD), takes three.
\<close>

definition is_high_surrogate :: "16 word \<Rightarrow> bool" where
  "is_high_surrogate c = (0xD800 \<le> c \<and> c \<le> 0xDBFF)"

definition is_low_surrogate :: "16 word \<Rightarrow> bool" where
  "is_low_surrogate c = (0xDC00 \<le> c \<and> c \<le> 0xDFFF)"

definition unit_bytes :: "16 word \<Rightarrow> nat" where
  "unit_bytes c = (if c < 0x80 then 1 else if c < 0x800 then 2 else 3)"

fun utf8_byteLength :: "js_string \<Rightarrow> nat" where
  "utf8_byteLength [] = 0"
| "utf8_byteLength [c] = unit_bytes c"
| "utf8_byteLength (c # d # cs) =
     (if is_high_surrogate c \<and> is_low_surrogate d then 4 + utf8_byteLength cs
      else unit_bytes c + utf8_byteLength (d # cs))"

text \<open>
  \<^verbatim>\<open>parseInt(s, 10)\<close>: leading white space is skipped, then an optional sign, then the
  longest run of decimal digits; with no digit the result is NaN. The value is kept exact
  (a double rounds it only beyond \<open>2 ^ 53\<close>, far outside every range the client accepts).
\<close>

definition is_white_space :: "16 word \<Rightarrow> bool" where
  "is_white_space c =
     (c \<in> {0x09, 0x0A, 0x0B, 0x0C, 0x0D, 0x20, 0xA0, 0x1680, 0x2028, 0x2029, 0x202F,
            0x205F, 0x3000, 0xFEFF} \<or> (0x2000 \<le> c \<and> c \<le> 0x200A))"

definition is_digit :: "16 word \<Rightarrow> bool" where
  "is_digit c = (0x30 \<le> c \<and> c \<le> 0x39)"

definition digits_value :: "16 word list \<Rightarrow> nat" where
  "digits_value ds = foldl (\<lambda>acc d. 10 * acc + (unat d - 48)) 0 ds"

definition parseInt10 :: "js_string \<Rightarrow> jsnum" where
  "parseInt10 s =
     (let t = dropWhile is_white_space s;
          neg = (case t of c # _ \<Rightarrow> c = 0x2D | [] \<Rightarrow> False);
          u = (case t of c # r \<Rightarrow> if c = 0x2D \<or> c = 0x2B then r else t | [] \<Rightarrow> []);
          ds = takeWhile is_digit u
      in if ds = [] then NaN
         else if neg then Fin (- of_nat (digits_value ds))
         else Fin (of_nat (digits_value ds)))"

text \<open>A value of type \<^verbatim>\<open>string | number | undefined\<close>, and \<^verbatim>\<open>normaliseInt\<close>, whose
  result \<open>None\<close> is \<^verbatim>\<open>undefined\<close>.\<close>

datatype prim = PUndefined | PNumber jsnum | PString js_string

fun normaliseInt :: "prim \<Rightarrow> jsnum option" where
  "normaliseInt (PNumber x) = Some (Math_round x)"
| "normaliseInt (PString s) = Some (parseInt10 s)"
| "normaliseInt PUndefined = None"

subsection \<open>JSON values and \<^verbatim>\<open>JSON.stringify\<close>\<close>

text \<open>
  The values that \<^verbatim>\<open>JSON.parse\<close> produces and \<^verbatim>\<open>JSON.stringify\<close> consumes. \<open>JNull\<close> is
  JavaScript's \<^verbatim>\<open>null\<close>. The numbers of the model's JSON documents are the integers from
  \<open>- 2 ^ 53\<close> to \<open>2 ^ 53 - 1\<close>, the signed values of a 54-bit word: a double holds each of
  them exactly, and \<^verbatim>\<open>JSON.stringify\<close> writes each as its decimal numeral. An object is the
  list of its own properties in insertion order; where a key occurs twice, the first
  occurrence is the property.
\<close>

type_synonym safe_int = "54 word"

datatype json =
    JNull
  | JBool bool
  | JNum safe_int
  | JStr js_string
  | JArr "json list"
  | JObj "(js_string \<times> json) list"

text \<open>
  What \<^verbatim>\<open>put\<close> can be handed as its value (\<^verbatim>\<open>KVPutValueType\<close> is a string, an
  \<^verbatim>\<open>ArrayBuffer\<close>, an \<^verbatim>\<open>ArrayBufferView\<close> or a \<^verbatim>\<open>ReadableStream\<close>; callers also pass plain
  objects) and what \<^verbatim>\<open>get\<close> can return. A stream is the finite byte sequence it yields.
\<close>

datatype js_value =
    Undefined
  | JS json
  | ArrayBuffer bytes
  | Uint8Array bytes
  | DataView bytes
  | ReadableStream bytes

abbreviation null :: js_value where
  "null \<equiv> JS JNull"

fun typeof :: "js_value \<Rightarrow> string" where
  "typeof Undefined = ''undefined''"
| "typeof (JS (JBool _)) = ''boolean''"
| "typeof (JS (JNum _)) = ''number''"
| "typeof (JS (JStr _)) = ''string''"
| "typeof _ = ''object''"

text \<open>Truthiness of a JSON value (\<^verbatim>\<open>options.metadata && ...\<close>).\<close>

fun truthy_json :: "json \<Rightarrow> bool" where
  "truthy_json JNull = False"
| "truthy_json (JBool b) = b"
| "truthy_json (JNum i) = (i \<noteq> 0)"
| "truthy_json (JStr s) = (s \<noteq> [])"
| "truthy_json _ = True"

text \<open>Decimal numerals, as \<^verbatim>\<open>JSON.stringify\<close> and property keys write integers.\<close>

function show_nat :: "nat \<Rightarrow> js_string" where
  "show_nat n = (if n < 10 then [of_nat (48 + n)] else show_nat (n div 10) @ [of_nat (48 + n mod 10)])"
  by pat_completeness auto
termination
  by (relation "measure id") auto

definition show_int :: "int \<Rightarrow> js_string" where
  "show_int i = (if i < 0 then 0x2D # show_nat (nat (- i)) else show_nat (nat i))"

text \<open>
  \<^verbatim>\<open>QuoteJSONString\<close>: the quote, the backslash and the control characters are escaped, a
  surrogate without its partner is written as a \<^verbatim>\<open>\uXXXX\<close> escape, everything else is
  copied.
\<close>

definition hex_digit :: "nat \<Rightarrow> 16 word" where
  "hex_digit n = (if n < 10 then of_nat (48 + n) else of_nat (87 + n))"

definition unicode_escape :: "16 word \<Rightarrow> js_string" where
  "unicode_escape c =
     (let n = unat c
      in [0x5C, 0x75, hex_digit (n div 4096), hex_digit (n div 256 mod 16),
          hex_digit (n div 16 mod 16), hex_digit (n mod 16)])"

definition quote_unit :: "16 word \<Rightarrow> js_string" where
  "quote_unit c =
     (if c = 0x22 then [0x5C, 0x22]
      else if c = 0x5C then [0x5C, 0x5C]
      else if c = 0x08 then [0x5C, 0x62]
      else if c = 0x0C then [0x5C, 0x66]
      else if c = 0x0A then [0x5C, 0x6E]
      else if c = 0x0D then [0x5C, 0x72]
      else if c = 0x09 then [0x5C, 0x74]
      else if c < 0x20 \<or> is_high_surrogate c \<or> is_low_surrogate c then unicode_escape c
      else [c])"

fun quote_units :: "js_string \<Rightarrow> js_string" where
  "quote_units [] = []"
| "quote_units [c] = quote_unit c"
| "quote_units (c # d # cs) =
     (if is_high_surrogate c \<and> is_low_surrogate d then c # d # quote_units cs
      else quote_unit c @ quote_units (d # cs))"

definition quote :: "js_string \<Rightarrow> js_string" where
  "quote s = 0x22 # quote_units s @ [0x22]"

fun join_comma :: "js_string list \<Rightarrow> js_string" where
  "join_comma [] = []"
| "join_comma [x] = x"
| "join_comma (x # y # ys) = x @ 0x2C # join_comma (y # ys)"

text \<open>
  The order in which an object's own properties are enumerated
  (\<^verbatim>\<open>OrdinaryOwnPropertyKeys\<close>): first the keys that are array indices, the decimal numerals
  without a leading zero of the numbers up to \<open>2 ^ 32 - 2\<close>, in ascending numeric order;
  then the other keys in insertion order. \<open>first_props\<close> keeps the first occurrence of
  each key.
\<close>

fun first_props :: "js_string list \<Rightarrow> (js_string \<times> 'a) list \<Rightarrow> (js_string \<times> 'a) list" where
  "first_props seen [] = []"
| "first_props seen ((k, v) # ps) =
     (if k \<in> set seen then first_props seen ps else (k, v) # first_props (k # seen) ps)"

definition is_array_index :: "js_string \<Rightarrow> bool" where
  "is_array_index k =
     (case k of
        [] \<Rightarrow> False
      | c # cs \<Rightarrow> list_all is_digit k \<and> (c \<noteq> 0x30 \<or> cs = [])
                  \<and> digits_value k \<le> 4294967294)"

definition own_properties :: "(js_string \<times> 'a) list \<Rightarrow> (js_string \<times> 'a) list" where
  "own_properties fs =
     (let ps = first_props [] fs
      in sort_key (\<lambda>p. digits_value (fst p)) (filter (\<lambda>p. is_array_index (fst p)) ps)
         @ filter (\<lambda>p. \<not> is_array_index (fst p)) ps)"

text \<open>
  \<^verbatim>\<open>SerializeJSONProperty\<close> on a JSON value: the members of an object are written in the
  order of enumeration.
\<close>

fun stringify_json :: "json \<Rightarrow> js_string" where
  "stringify_json JNull = ascii ''null''"
| "stringify_json (JBool b) = (if b then ascii ''true'' else ascii ''false'')"
| "stringify_json (JNum i) = show_int (sint i)"
| "stringify_json (JStr s) = quote s"
| "stringify_json (JArr xs) = 0x5B # join_comma (map stringify_json xs) @ [0x5D]"
| "stringify_json (JObj fs) =
     0x7B # join_comma (map (\<lambda>(k, t). quote k @ 0x3A # t)
                          (own_properties (map (\<lambda>(k, v). (k, stringify_json v)) fs)))
     @ [0x7D]"

text \<open>
  \<^verbatim>\<open>JSON.stringify\<close> on the values whose \<^verbatim>\<open>typeof\<close> is \<^verbatim>\<open>'object'\<close> or that are JSON. An
  \<^verbatim>\<open>ArrayBuffer\<close>, a \<^verbatim>\<open>DataView\<close> and a \<^verbatim>\<open>ReadableStream\<close> have no enumerable property of
  their own and serialise as \<^verbatim>\<open>{}\<close>; a \<^verbatim>\<open>Uint8Array\<close> serialises as the object of its
  indices. \<open>None\<close> is the result \<^verbatim>\<open>undefined\<close>.
\<close>

fun JSON_stringify :: "js_value \<Rightarrow> js_string option" where
  "JSON_stringify Undefined = None"
| "JSON_stringify (JS j) = Some (stringify_json j)"
| "JSON_stringify (Uint8Array bs) =
     Some (stringify_json (JObj (map (\<lambda>(i, b). (show_nat i, JNum (ucast b))) (enumerate 0 bs))))"
| "JSON_stringify _ = Some (ascii ''{}'')"

subsection \<open>Errors and template literals\<close>

text \<open>
  A template literal is kept as the list of its parts: the literal text and the values
  interpolated into it. \<open>Num\<close> is an interpolated number, \<open>Raw\<close> an interpolated option
  value as the caller passed it, \<open>Str\<close> an interpolated string.
\<close>

datatype part = Lit string | Num jsnum | Raw prim | Str js_string

text \<open>
  What an operation can throw: a \<^verbatim>\<open>TypeError\<close> or an \<^verbatim>\<open>Error\<close> of the client with its
  message, a \<^verbatim>\<open>TypeError\<close> of the engine (a property read on \<^verbatim>\<open>null\<close> or \<^verbatim>\<open>undefined\<close>),
  the \<^verbatim>\<open>SyntaxError\<close> of \<^verbatim>\<open>res.json()\<close> on a body that is not JSON, and the rejection of
  \<^verbatim>\<open>fetch\<close> itself.
\<close>

datatype error =
    TypeError "part list"
  | Error "part list"
  | EngineTypeError
  | SyntaxError
  | NetworkError

datatype Method = GET | PUT | DELETE

fun method_name :: "Method \<Rightarrow> string" where
  "method_name GET = ''GET''"
| "method_name PUT = ''PUT''"
| "method_name DELETE = ''DELETE''"

definition MIN_CACHE_TTL :: jsnum where "MIN_CACHE_TTL = Fin 60"
definition MIN_EXPIRATION :: jsnum where "MIN_EXPIRATION = Fin (- 2147483648)"
definition MAX_EXPIRATION :: jsnum where "MAX_EXPIRATION = Fin 2147483647"
definition MAX_LIST_KEYS :: jsnum where "MAX_LIST_KEYS = Fin 1000"
definition MAX_KEY_SIZE :: nat where "MAX_KEY_SIZE = 512"
definition MAX_VALUE_SIZE :: nat where "MAX_VALUE_SIZE = 25 * 1024 * 1024"
definition MAX_METADATA_SIZE :: nat where "MAX_METADATA_SIZE = 1024"

definition js_of_nat :: "nat \<Rightarrow> jsnum" where
  "js_of_nat n = Fin (of_nat n)"

text \<open>\<^verbatim>\<open>throwKVError\<close> always throws; the model returns the error it throws.\<close>

definition throwKVError :: "Method \<Rightarrow> nat \<Rightarrow> part list \<Rightarrow> error" where
  "throwKVError method status message =
     Error ([Lit ''KV '', Lit (method_name method), Lit '' failed: '', Num (js_of_nat status),
             Lit '' ''] @ message)"

definition dq :: string where
  "dq = [CHR 0x22]"

section \<open>Validation\<close>

definition key_length_message :: "nat \<Rightarrow> part list" where
  "key_length_message keyLength =
     [Lit ''UTF-8 encoded length of '', Num (js_of_nat keyLength),
      Lit '' exceeds key length limit of '', Num (js_of_nat MAX_KEY_SIZE), Lit ''.'']"

definition validateKey :: "Method \<Rightarrow> js_string \<Rightarrow> error + unit" where
  "validateKey method key =
     (if key = [] then Inl (TypeError [Lit ''Key name cannot be empty.''])
      else if key = ascii ''.'' then
        Inl (TypeError [Lit (dq @ ''.'' @ dq @ '' is not allowed as a key name.'')])
      else if key = ascii ''..'' then
        Inl (TypeError [Lit (dq @ ''..'' @ dq @ '' is not allowed as a key name.'')])
      else
        let keyLength = utf8_byteLength key
        in if keyLength > MAX_KEY_SIZE then
             Inl (throwKVError method 414 (key_length_message keyLength))
           else Inr ())"

text \<open>
  The options of \<^verbatim>\<open>get\<close>: left out, a bare type string, or an object whose \<^verbatim>\<open>type\<close> and
  \<^verbatim>\<open>cacheTtl\<close> may each be missing.
\<close>

record KVGetOptions =
  gtype :: "js_string option"
  cacheTtl :: "jsnum option"

datatype get_options = OptUndefined | OptString js_string | OptObject KVGetOptions

definition getValueTypes :: "js_string set" where
  "getValueTypes = {ascii ''text'', ascii ''json'', ascii ''arrayBuffer'', ascii ''stream''}"

definition truthy_opt_num :: "jsnum option \<Rightarrow> bool" where
  "truthy_opt_num x = (case x of None \<Rightarrow> False | Some n \<Rightarrow> truthy_num n)"

definition unknown_type_message :: "part list" where
  "unknown_type_message =
     [Lit (''Unknown response type. Possible types are '' @ dq @ ''text'' @ dq @ '', '' @ dq
           @ ''arrayBuffer'' @ dq @ '', '' @ dq @ ''json'' @ dq @ '', and '' @ dq @ ''stream''
           @ dq @ ''.'')]"

text \<open>
  The first two lines of \<^verbatim>\<open>validateGetOptions\<close>: the type is the options themselves when
  they are a string, else their \<^verbatim>\<open>type\<close>, else \<^verbatim>\<open>'text'\<close>; the cache TTL is read from an
  options object only.
\<close>

definition options_type :: "get_options \<Rightarrow> js_string" where
  "options_type options =
     (case options of
        OptString s \<Rightarrow> s
      | OptObject ob \<Rightarrow> (case gtype ob of Some t \<Rightarrow> t | None \<Rightarrow> ascii ''text'')
      | OptUndefined \<Rightarrow> ascii ''text'')"

definition options_cacheTtl :: "get_options \<Rightarrow> jsnum option" where
  "options_cacheTtl options = (case options of OptObject ob \<Rightarrow> cacheTtl ob | _ \<Rightarrow> None)"

definition cache_ttl_message :: "jsnum \<Rightarrow> part list" where
  "cache_ttl_message c =
     [Lit ''Invalid cache_ttl of '', Num c, Lit ''. Cache TTL must be at least '',
      Num MIN_CACHE_TTL, Lit ''.'']"

definition validateGetOptions :: "get_options \<Rightarrow> error + js_string" where
  "validateGetOptions options =
     (let type = options_type options;
          ttl = options_cacheTtl options
      in if truthy_opt_num ttl \<and> (isNaN (the ttl) \<or> js_lt (the ttl) MIN_CACHE_TTL) then
           Inl (throwKVError GET 400 (cache_ttl_message (the ttl)))
         else if type \<notin> getValueTypes then Inl (TypeError unknown_type_message)
         else Inr type)"

section \<open>The client\<close>

subsection \<open>Construction\<close>

record KVOptions =
  api_email :: "js_string option"
  api_key :: "js_string option"
  api_token :: "js_string option"
  account_id :: js_string
  namespace_id :: js_string

text \<open>The private fields of the class: the header object and the base URL.\<close>

record CloudflareKV =
  headers :: "string \<rightharpoonup> js_string"
  baseUrl :: js_string

text \<open>An optional string is truthy when it is present and not empty.\<close>

definition truthy_str :: "js_string option \<Rightarrow> bool" where
  "truthy_str x = (case x of None \<Rightarrow> False | Some s \<Rightarrow> s \<noteq> [])"

text \<open>
  \<^verbatim>\<open>s.replace(pattern, replacement)\<close> with a string pattern: the first occurrence of the
  pattern is replaced, and in the replacement \<^verbatim>\<open>$$\<close> stands for a dollar sign, \<^verbatim>\<open>$&\<close> for the
  match, \<^verbatim>\<open>$`\<close> for the text before it and \<^verbatim>\<open>$'\<close> for the text after it.
\<close>

fun split_first :: "js_string \<Rightarrow> js_string \<Rightarrow> js_string \<Rightarrow> (js_string \<times> js_string) option" where
  "split_first pat before [] = (if pat = [] then Some (rev before, []) else None)"
| "split_first pat before (c # cs) =
     (if take (length pat) (c # cs) = pat then Some (rev before, drop (length pat) (c # cs))
      else split_first pat (c # before) cs)"

fun getSubstitution :: "js_string \<Rightarrow> js_string \<Rightarrow> js_string \<Rightarrow> js_string \<Rightarrow> js_string" where
  "getSubstitution m b a [] = []"
| "getSubstitution m b a [c] = [c]"
| "getSubstitution m b a (c # d # r) =
     (if c = 0x24 \<and> d = 0x24 then 0x24 # getSubstitution m b a r
      else if c = 0x24 \<and> d = 0x26 then m @ getSubstitution m b a r
      else if c = 0x24 \<and> d = 0x60 then b @ getSubstitution m b a r
      else if c = 0x24 \<and> d = 0x27 then a @ getSubstitution m b a r
      else c # getSubstitution m b a (d # r))"

definition js_replace :: "js_string \<Rightarrow> js_string \<Rightarrow> js_string \<Rightarrow> js_string" where
  "js_replace s pat rep =
     (case split_first pat [] s of
        None \<Rightarrow> s
      | Some (b, a) \<Rightarrow> b @ getSubstitution pat b a rep @ a)"

definition baseUrl_template :: js_string where
  "baseUrl_template =
     ascii ''https://api.cloudflare.com/client/v4/accounts/{account_identifier}/storage/kv/namespaces/{namespace_identifier}''"

text \<open>The constructor: \<open>Inl\<close> is the error it throws, \<open>Inr\<close> the instance it leaves.\<close>

definition new_CloudflareKV :: "KVOptions \<Rightarrow> error + CloudflareKV" where
  "new_CloudflareKV options =
     (if account_id options = [] \<or> namespace_id options = [] then
        Inl (Error [Lit ''Missing account_id or namespace_id''])
      else
        let url = js_replace
                    (js_replace baseUrl_template (ascii ''{account_identifier}'') (account_id options))
                    (ascii ''{namespace_identifier}'') (namespace_id options);
            h0 = [''content-type'' \<mapsto> ascii ''application/json'']
        in if \<not> truthy_str (api_email options) \<and> \<not> truthy_str (api_key options)
              \<and> \<not> truthy_str (api_token options) then
             Inl (Error [Lit ''Missing api_email, api_key or api_token''])
           else
             let h1 = (if truthy_str (api_email options) \<and> truthy_str (api_key options) then
                         h0(''x-api-email'' \<mapsto> the (api_email options),
                            ''x-auth-key'' \<mapsto> the (api_key options))
                       else h0);
                 h2 = (if truthy_str (api_token options) then
                         h1(''authorization'' \<mapsto> ascii ''Bearer '' @ the (api_token options))
                       else h1)
             in Inr \<lparr>headers = h2, baseUrl = url\<rparr>)"

subsection \<open>Requests, responses and the transport\<close>

text \<open>
  One entry of the array that \<^verbatim>\<open>put\<close> sends to \<^verbatim>\<open>/bulk\<close>, before \<^verbatim>\<open>JSON.stringify\<close> writes
  it out; \<open>None\<close> is a field that is \<^verbatim>\<open>undefined\<close>.
\<close>

record bulk_item =
  item_expiration :: "jsnum option"
  item_expiration_ttl :: "jsnum option"
  item_key :: js_string
  item_value :: js_string
  item_metadata :: "json option"

text \<open>
  A call of \<^verbatim>\<open>fetch\<close>: the method, the URL as the template literal builds it, the
  parameters appended to \<^verbatim>\<open>searchParams\<close> in order, the header object and the body.
\<close>

record request =
  req_method :: Method
  req_url :: js_string
  req_searchParams :: "(string \<times> part) list"
  req_headers :: "string \<rightharpoonup> js_string"
  req_body :: "bulk_item list option"

text \<open>
  The \<^verbatim>\<open>Response\<close> that \<^verbatim>\<open>fetch\<close> resolves to, as the results of the members the client
  reads: \<^verbatim>\<open>status\<close>, \<^verbatim>\<open>text()\<close>, \<^verbatim>\<open>json()\<close> (\<open>None\<close> when the body is not JSON and the
  promise rejects), \<^verbatim>\<open>arrayBuffer()\<close> and \<^verbatim>\<open>body\<close> (\<open>None\<close> for \<^verbatim>\<open>null\<close>). The type
  parameter is the type the call site gives the parsed JSON.
\<close>

record 'j response =
  res_status :: nat
  res_text :: js_string
  res_json :: "'j option"
  res_arrayBuffer :: bytes
  res_body :: "bytes option"

text \<open>
  The network: what \<^verbatim>\<open>fetch\<close> answers to each request, \<open>None\<close> when it rejects. An
  operation returns its outcome together with the requests it issued, in order.
\<close>

type_synonym 'j fetch = "request \<Rightarrow> 'j response option"
type_synonym 'a outcome = "(error + 'a) \<times> request list"

text \<open>
  Reading a property of a parsed JSON value, for the names the client reads, none of which
  is an array index or inherited: on \<^verbatim>\<open>null\<close> the engine raises, on an object the result is
  the property or \<^verbatim>\<open>undefined\<close> (\<open>None\<close>), on every other value \<^verbatim>\<open>undefined\<close>.
\<close>

definition json_property :: "json \<Rightarrow> js_string \<Rightarrow> error + json option" where
  "json_property j p =
     (case j of
        JNull \<Rightarrow> Inl EngineTypeError
      | JObj fs \<Rightarrow> Inr (map_of fs p)
      | _ \<Rightarrow> Inr None)"

subsection \<open>get, getWithMetadata and delete\<close>

text \<open>
  The key of every operation is a \<open>js_string\<close>, so the \<^verbatim>\<open>typeof key !== 'string'\<close> test
  never fires. A request without a \<^verbatim>\<open>method\<close> is a GET. The three requests on a key:
  \<^verbatim>\<open>fetch(`${baseUrl}/values/${key}`, ...)\<close> of \<^verbatim>\<open>get\<close> and \<^verbatim>\<open>delete\<close>, and
  \<^verbatim>\<open>fetch(`${baseUrl}/metadata/${key}`, ...)\<close> of \<^verbatim>\<open>getWithMetadata\<close>.
\<close>

definition values_request :: "CloudflareKV \<Rightarrow> Method \<Rightarrow> js_string \<Rightarrow> request" where
  "values_request this method key =
     \<lparr>req_method = method, req_url = baseUrl this @ ascii ''/values/'' @ key,
      req_searchParams = [], req_headers = headers this, req_body = None\<rparr>"

definition metadata_request :: "CloudflareKV \<Rightarrow> js_string \<Rightarrow> request" where
  "metadata_request this key =
     \<lparr>req_method = GET, req_url = baseUrl this @ ascii ''/metadata/'' @ key,
      req_searchParams = [], req_headers = headers this, req_body = None\<rparr>"

definition get :: "CloudflareKV \<Rightarrow> js_string \<Rightarrow> get_options \<Rightarrow> json fetch \<Rightarrow> js_value outcome" where
  "get this key options fetch =
     (case validateKey GET key of
        Inl e \<Rightarrow> (Inl e, [])
      | Inr _ \<Rightarrow>
     (case validateGetOptions options of
        Inl e \<Rightarrow> (Inl e, [])
      | Inr type \<Rightarrow>
          let req = values_request this GET key
          in (case fetch req of
               None \<Rightarrow> (Inl NetworkError, [req])
             | Some res \<Rightarrow>
                 if res_status res = 404 then (Inr null, [req])
                 else if type = ascii ''text'' then (Inr (JS (JStr (res_text res))), [req])
                 else if type = ascii ''json'' then
                   (case res_json res of
                      None \<Rightarrow> (Inl SyntaxError, [req])
                    | Some j \<Rightarrow> (Inr (JS j), [req]))
                 else if type = ascii ''arrayBuffer'' then (Inr (ArrayBuffer (res_arrayBuffer res)), [req])
                 else (case res_body res of
                         None \<Rightarrow> (Inr null, [req])
                       | Some b \<Rightarrow> (Inr (ReadableStream b), [req])))))"

record value_meta =
  vm_value :: js_value
  vm_metadata :: "json option"

definition getWithMetadata ::
  "CloudflareKV \<Rightarrow> js_string \<Rightarrow> get_options \<Rightarrow> json fetch \<Rightarrow> value_meta outcome" where
  "getWithMetadata this key options fetch =
     (case get this key options fetch of
        (Inl e, reqs) \<Rightarrow> (Inl e, reqs)
      | (Inr v, reqs) \<Rightarrow>
          if v = null then (Inr \<lparr>vm_value = v, vm_metadata = Some JNull\<rparr>, reqs)
          else
            let req = metadata_request this key
            in (case fetch req of
                 None \<Rightarrow> (Inl NetworkError, reqs @ [req])
               | Some res \<Rightarrow>
                   (case res_json res of
                      None \<Rightarrow> (Inl SyntaxError, reqs @ [req])
                    | Some j \<Rightarrow>
                        (case json_property j (ascii ''result'') of
                           Inl e \<Rightarrow> (Inl e, reqs @ [req])
                         | Inr result \<Rightarrow>
                             (Inr \<lparr>vm_value = v, vm_metadata = result\<rparr>, reqs @ [req])))))"

definition delete :: "CloudflareKV \<Rightarrow> js_string \<Rightarrow> json fetch \<Rightarrow> unit outcome" where
  "delete this key fetch =
     (case validateKey DELETE key of
        Inl e \<Rightarrow> (Inl e, [])
      | Inr _ \<Rightarrow>
          let req = values_request this DELETE key
          in (case fetch req of
               None \<Rightarrow> (Inl NetworkError, [req])
             | Some res \<Rightarrow> (Inr (), [req])))"

subsection \<open>put\<close>

record KVPutOptions =
  expiration :: prim
  expirationTtl :: prim
  metadata :: "json option"

text \<open>
  The stored string: the value itself when it is a string, its \<^verbatim>\<open>JSON.stringify\<close> when
  \<^verbatim>\<open>typeof value === 'object'\<close>, a \<^verbatim>\<open>TypeError\<close> otherwise.
\<close>

definition put_value_message :: "part list" where
  "put_value_message =
     [Lit ''KV put() accepts only strings as values (ArrayBuffers, ArrayBufferViews, and ReadableStreams not support).'']"

fun put_stored :: "js_value \<Rightarrow> error + js_string option" where
  "put_stored (JS (JStr s)) = Inr (Some s)"
| "put_stored v =
     (if typeof v = ''object'' then Inr (JSON_stringify v) else Inl (TypeError put_value_message))"

definition out_of_range_message :: "part list" where
  "out_of_range_message =
     [Lit ''Value out of range. Must be between '', Num MIN_EXPIRATION, Lit '' and '',
      Num MAX_EXPIRATION, Lit '' (inclusive).'']"

text \<open>
  The body of \<^verbatim>\<open>if (expirationTtl) { ... }\<close>, entered with a truthy TTL: the range, then
  the sign, then the floor; the result is the new value of \<^verbatim>\<open>expiration\<close>.
\<close>

definition ttl_positive_message :: "KVPutOptions \<Rightarrow> part list" where
  "ttl_positive_message options =
     [Lit ''Invalid expiration_ttl of '', Raw (expirationTtl options),
      Lit ''. Please specify integer greater than 0.'']"

definition ttl_floor_message :: "KVPutOptions \<Rightarrow> part list" where
  "ttl_floor_message options =
     [Lit ''Invalid expiration_ttl of '', Raw (expirationTtl options),
      Lit ''. Expiration TTL must be at least '', Num MIN_CACHE_TTL, Lit ''.'']"

definition put_check_ttl :: "jsnum \<Rightarrow> KVPutOptions \<Rightarrow> jsnum \<Rightarrow> error + jsnum" where
  "put_check_ttl now options ttl =
     (if js_lt ttl MIN_EXPIRATION \<or> js_gt ttl MAX_EXPIRATION then
        Inl (TypeError out_of_range_message)
      else if isNaN ttl \<or> js_le ttl (Fin 0) then
        Inl (throwKVError PUT 400 (ttl_positive_message options))
      else if js_lt ttl MIN_CACHE_TTL then
        Inl (throwKVError PUT 400 (ttl_floor_message options))
      else Inr (js_add now ttl))"

text \<open>The body of \<^verbatim>\<open>else if (expiration !== undefined) { ... }\<close>.\<close>

definition expiration_future_message :: "KVPutOptions \<Rightarrow> part list" where
  "expiration_future_message options =
     [Lit ''Invalid expiration of '', Raw (expiration options),
      Lit ''. Please specify integer greater than the current number of seconds since the UNIX epoch.'']"

definition expiration_floor_message :: "KVPutOptions \<Rightarrow> part list" where
  "expiration_floor_message options =
     [Lit ''Invalid expiration of '', Raw (expiration options),
      Lit ''. Expiration times must be at least '', Num MIN_CACHE_TTL,
      Lit '' seconds in the future.'']"

definition put_check_expiration :: "jsnum \<Rightarrow> KVPutOptions \<Rightarrow> jsnum \<Rightarrow> error + jsnum" where
  "put_check_expiration now options ex =
     (if js_lt ex MIN_EXPIRATION \<or> js_gt ex MAX_EXPIRATION then
        Inl (TypeError out_of_range_message)
      else if isNaN ex \<or> js_le ex now then
        Inl (throwKVError PUT 400 (expiration_future_message options))
      else if js_lt ex (js_add now MIN_CACHE_TTL) then
        Inl (throwKVError PUT 400 (expiration_floor_message options))
      else Inr ex)"

text \<open>
  \<^verbatim>\<open>Normalise and validate expiration\<close>: the value of \<^verbatim>\<open>expiration\<close> after the two
  branches, \<open>None\<close> for \<^verbatim>\<open>undefined\<close>.
\<close>

definition put_expiration :: "jsnum \<Rightarrow> KVPutOptions \<Rightarrow> error + jsnum option" where
  "put_expiration now options =
     (let ex = normaliseInt (expiration options);
          ttl = normaliseInt (expirationTtl options)
      in if truthy_opt_num ttl then
           map_sum id Some (put_check_ttl now options (the ttl))
         else (case ex of
                 None \<Rightarrow> Inr None
               | Some e \<Rightarrow> map_sum id Some (put_check_expiration now options e)))"

text \<open>
  \<^verbatim>\<open>Validate value and metadata size\<close>. Both lengths are \<^verbatim>\<open>.length\<close> of a string, the
  number of its UTF-16 code units. A stored value that is \<^verbatim>\<open>undefined\<close> has no length.
\<close>

definition value_length_message :: "nat \<Rightarrow> part list" where
  "value_length_message n =
     [Lit ''Value length of '', Num (js_of_nat n), Lit '' exceeds limit of '',
      Num (js_of_nat MAX_VALUE_SIZE), Lit ''.'']"

definition metadata_length_message :: "nat \<Rightarrow> part list" where
  "metadata_length_message n =
     [Lit ''Metadata length of '', Num (js_of_nat n), Lit '' exceeds limit of '',
      Num (js_of_nat MAX_METADATA_SIZE), Lit ''.'']"

definition put_check_sizes :: "js_string option \<Rightarrow> KVPutOptions \<Rightarrow> error + js_string" where
  "put_check_sizes stored options =
     (case stored of
        None \<Rightarrow> Inl EngineTypeError
      | Some st \<Rightarrow>
          if length st > MAX_VALUE_SIZE then
            Inl (throwKVError PUT 413 (value_length_message (length st)))
          else
            (case metadata options of
               None \<Rightarrow> Inr st
             | Some m \<Rightarrow>
                 let metadataLength = length (stringify_json m)
                 in if truthy_json m \<and> metadataLength \<noteq> 0 \<and> metadataLength > MAX_METADATA_SIZE then
                      Inl (throwKVError PUT 413 (metadata_length_message metadataLength))
                    else Inr st))"

text \<open>The request of \<^verbatim>\<open>put\<close>: a PUT of the one-element array to \<^verbatim>\<open>/bulk\<close>.\<close>

definition bulk_request :: "CloudflareKV \<Rightarrow> bulk_item \<Rightarrow> request" where
  "bulk_request this item =
     \<lparr>req_method = PUT, req_url = baseUrl this @ ascii ''/bulk'',
      req_searchParams = [], req_headers = headers this, req_body = Some [item]\<rparr>"

text \<open>
  \<^verbatim>\<open>put\<close>. \<open>clock\<close> is what \<^verbatim>\<open>new Date().getTime()\<close> reads, a whole number of
  milliseconds; \<^verbatim>\<open>now\<close> is \<^verbatim>\<open>normaliseInt\<close> of a thousandth of it.
\<close>

definition put_now :: "int \<Rightarrow> jsnum" where
  "put_now clock = Math_round (Fin (of_int clock / 1000))"

definition put ::
  "CloudflareKV \<Rightarrow> int \<Rightarrow> js_string \<Rightarrow> js_value \<Rightarrow> KVPutOptions \<Rightarrow> json fetch \<Rightarrow> unit outcome" where
  "put this clock key v options fetch =
     (case validateKey PUT key of
        Inl e \<Rightarrow> (Inl e, [])
      | Inr _ \<Rightarrow>
     (case put_stored v of
        Inl e \<Rightarrow> (Inl e, [])
      | Inr stored \<Rightarrow>
     (let now = put_now clock
      in (case put_expiration now options of
            Inl e \<Rightarrow> (Inl e, [])
          | Inr ex \<Rightarrow>
         (case put_check_sizes stored options of
            Inl e \<Rightarrow> (Inl e, [])
          | Inr st \<Rightarrow>
              (let req = bulk_request this
                           \<lparr>item_expiration = ex,
                            item_expiration_ttl = normaliseInt (expirationTtl options),
                            item_key = key, item_value = st, item_metadata = metadata options\<rparr>
               in (case fetch req of
                     None \<Rightarrow> (Inl NetworkError, [req])
                   | Some res \<Rightarrow> (Inr (), [req]))))))))"

subsection \<open>list\<close>

record KVListOptions =
  prefix :: "js_string option"
  limit :: "jsnum option"
  cursor :: "js_string option"

text \<open>
  The parsed body of the \<^verbatim>\<open>/keys\<close> response in the shape the source declares for it:
  \<^verbatim>\<open>{ result: StoredKeyMeta[]; result_info: { cursor: string } }\<close>. Whatever else the server
  puts in the envelope is the extension of the record.
\<close>

record StoredKeyMeta =
  key_name :: js_string
  key_expiration :: "jsnum option"
  key_metadata :: "json option"

record result_info =
  info_cursor :: js_string

record list_envelope =
  result :: "StoredKeyMeta list"
  result_info :: result_info

record KVListResult =
  keys :: "StoredKeyMeta list"
  result_cursor :: js_string
  list_complete :: bool

text \<open>The value of the \<^verbatim>\<open>limit\<close> parameter after its default (\<^verbatim>\<open>limit = MAX_LIST_KEYS\<close>).\<close>

definition requested_limit :: "KVListOptions \<Rightarrow> jsnum" where
  "requested_limit options = (case limit options of None \<Rightarrow> MAX_LIST_KEYS | Some l \<Rightarrow> l)"

definition list_request :: "CloudflareKV \<Rightarrow> KVListOptions \<Rightarrow> request" where
  "list_request this options =
     (let pre = (case prefix options of None \<Rightarrow> [] | Some p \<Rightarrow> p);
          lim = requested_limit options
      in \<lparr>req_method = GET, req_url = baseUrl this @ ascii ''/keys'',
          req_searchParams =
            (if pre \<noteq> [] then [(''prefix'', Str pre)] else [])
            @ (if truthy_num lim then [(''limit'', Num lim)] else [])
            @ (if truthy_str (cursor options) then [(''cursor'', Str (the (cursor options)))] else []),
          req_headers = headers this, req_body = None\<rparr>)"

definition key_count_low_message :: "jsnum \<Rightarrow> part list" where
  "key_count_low_message n =
     [Lit ''Invalid key_count_limit of '', Num n,
      Lit ''. Please specify an integer greater than 0.'']"

definition key_count_high_message :: "jsnum \<Rightarrow> part list" where
  "key_count_high_message n =
     [Lit ''Invalid key_count_limit of '', Num n,
      Lit ''. Please specify an integer less than '', Num MAX_LIST_KEYS, Lit ''.'']"

definition list ::
  "CloudflareKV \<Rightarrow> KVListOptions \<Rightarrow> ('e list_envelope_scheme) fetch \<Rightarrow> KVListResult outcome" where
  "list this options fetch =
     (let lim = requested_limit options
      in if isNaN lim \<or> js_lt lim (Fin 1) then
           (Inl (throwKVError GET 400 (key_count_low_message lim)), [])
         else if js_gt lim MAX_LIST_KEYS then
           (Inl (throwKVError GET 400 (key_count_high_message lim)), [])
         else
           (let req = list_request this options
            in (case fetch req of
                  None \<Rightarrow> (Inl NetworkError, [req])
                | Some r \<Rightarrow>
                    (case res_json r of
                       None \<Rightarrow> (Inl SyntaxError, [req])
                     | Some env \<Rightarrow>
                         (Inr \<lparr>keys = result env, result_cursor = info_cursor (result_info env),
                               list_complete = js_lt (js_of_nat (length (result env))) lim\<rparr>,
                          [req])))))"

section \<open>Concrete clients, servers and inputs\<close>

text \<open>A client built from a bearer token, and the options that build it.\<close>

definition token_options :: KVOptions where
  "token_options =
     \<lparr>api_email = None, api_key = None, api_token = Some (ascii ''secret''),
      account_id = ascii ''acc'', namespace_id = ascii ''ns''\<rparr>"

definition token_client :: CloudflareKV where
  "token_client =
     \<lparr>headers = [''content-type'' \<mapsto> ascii ''application/json'',
                 ''authorization'' \<mapsto> ascii ''Bearer secret''],
      baseUrl = ascii ''https://api.cloudflare.com/client/v4/accounts/acc/storage/kv/namespaces/ns''\<rparr>"

text \<open>Options that give both credential schemes, and options that give an e-mail address only.\<close>

definition both_options :: KVOptions where
  "both_options =
     \<lparr>api_email = Some (ascii ''a@b.c''), api_key = Some (ascii ''k''),
      api_token = Some (ascii ''secret''), account_id = ascii ''acc'', namespace_id = ascii ''ns''\<rparr>"

definition email_only_options :: KVOptions where
  "email_only_options =
     \<lparr>api_email = Some (ascii ''a@b.c''), api_key = None, api_token = None,
      account_id = ascii ''acc'', namespace_id = ascii ''ns''\<rparr>"

definition both_client :: CloudflareKV where
  "both_client =
     \<lparr>headers = [''content-type'' \<mapsto> ascii ''application/json'',
                 ''x-api-email'' \<mapsto> ascii ''a@b.c'', ''x-auth-key'' \<mapsto> ascii ''k'',
                 ''authorization'' \<mapsto> ascii ''Bearer secret''],
      baseUrl = ascii ''https://api.cloudflare.com/client/v4/accounts/acc/storage/kv/namespaces/ns''\<rparr>"

definition email_only_client :: CloudflareKV where
  "email_only_client =
     \<lparr>headers = [''content-type'' \<mapsto> ascii ''application/json''],
      baseUrl = ascii ''https://api.cloudflare.com/client/v4/accounts/acc/storage/kv/namespaces/ns''\<rparr>"

text \<open>
  Servers. The first answers every request with status 200 and the body \<^verbatim>\<open>null\<close>; the second
  with 404; the third with 200 and the body \<^verbatim>\<open>{"result":{"a":1}}\<close>.
\<close>

definition null_response :: "json response" where
  "null_response =
     \<lparr>res_status = 200, res_text = ascii ''null'', res_json = Some JNull,
      res_arrayBuffer = [0x6E, 0x75, 0x6C, 0x6C], res_body = Some [0x6E, 0x75, 0x6C, 0x6C]\<rparr>"

definition null_server :: "json fetch" where
  "null_server req = Some null_response"

definition not_found_response :: "json response" where
  "not_found_response =
     \<lparr>res_status = 404, res_text = [], res_json = None, res_arrayBuffer = [], res_body = None\<rparr>"

definition not_found_server :: "json fetch" where
  "not_found_server req = Some not_found_response"

definition result_json :: json where
  "result_json = JObj [(ascii ''result'', JObj [(ascii ''a'', JNum 1)])]"

definition result_response :: "json response" where
  "result_response =
     \<lparr>res_status = 200, res_text = stringify_json result_json, res_json = Some result_json,
      res_arrayBuffer = [], res_body = Some []\<rparr>"

definition result_server :: "json fetch" where
  "result_server req = Some result_response"

text \<open>A \<^verbatim>\<open>/keys\<close> server whose page holds two keys, and says so in a field of its own.\<close>

definition two_keys :: "StoredKeyMeta list" where
  "two_keys =
     [\<lparr>key_name = ascii ''user:1'', key_expiration = None, key_metadata = None\<rparr>,
      \<lparr>key_name = ascii ''user:2'', key_expiration = None, key_metadata = None\<rparr>]"

definition page_response :: "bool list_envelope_scheme response" where
  "page_response =
     \<lparr>res_status = 200, res_text = [],
      res_json = Some \<lparr>result = two_keys, result_info = \<lparr>info_cursor = ascii ''c1''\<rparr>, \<dots> = True\<rparr>,
      res_arrayBuffer = [], res_body = Some []\<rparr>"

definition page_server :: "bool list_envelope_scheme fetch" where
  "page_server req = Some page_response"

text \<open>The object \<^verbatim>\<open>{"name":"a"}\<close>.\<close>

definition name_a :: json where
  "name_a = JObj [(ascii ''name'', JStr (ascii ''a''))]"

text \<open>A clock reading, and options that give nothing.\<close>

definition clock0 :: int where
  "clock0 = 1700000000123"

definition no_put_options :: KVPutOptions where
  "no_put_options = \<lparr>expiration = PUndefined, expirationTtl = PUndefined, metadata = None\<rparr>"

definition no_list_options :: KVListOptions where
  "no_list_options = \<lparr>prefix = None, limit = None, cursor = None\<rparr>"

section \<open>Properties\<close>

subsection \<open>Key validation\<close>

lemma special_keys_short:
  "utf8_byteLength [] = 0" "utf8_byteLength (ascii ''.'') = 1" "utf8_byteLength (ascii ''..'') = 2"
  by (simp_all add: ascii_def unit_bytes_def is_high_surrogate_def)

lemma validateKey_special:
  assumes "key = [] \<or> key = ascii ''.'' \<or> key = ascii ''..''"
  shows "\<exists>msg. \<forall>m. validateKey m key = Inl (TypeError msg)"
  using assms by (auto simp: validateKey_def ascii_def)

lemma validateKey_long:
  assumes "utf8_byteLength key > 512"
  shows "validateKey m key = Inl (throwKVError m 414 (key_length_message (utf8_byteLength key)))"
proof -
  have "key \<noteq> []" "key \<noteq> ascii ''.''" "key \<noteq> ascii ''..''"
    using assms special_keys_short by auto
  then show ?thesis
    using assms by (simp add: validateKey_def MAX_KEY_SIZE_def Let_def)
qed

lemma get_key_error: "validateKey GET key = Inl e \<Longrightarrow> get this key options fetch = (Inl e, [])"
  by (simp add: get_def)

lemma getWithMetadata_key_error:
  "validateKey GET key = Inl e \<Longrightarrow> getWithMetadata this key options fetch = (Inl e, [])"
  by (simp add: getWithMetadata_def get_key_error)

lemma put_key_error:
  "validateKey PUT key = Inl e \<Longrightarrow> put this clock key v options fetch = (Inl e, [])"
  by (simp add: put_def)

lemma delete_key_error: "validateKey DELETE key = Inl e \<Longrightarrow> delete this key fetch = (Inl e, [])"
  by (simp add: delete_def)

text \<open>
  Claim C4. In \<^verbatim>\<open>get\<close>, \<^verbatim>\<open>getWithMetadata\<close>, \<^verbatim>\<open>put\<close> and \<^verbatim>\<open>delete\<close>, a key that is the empty
  string, \<^verbatim>\<open>"."\<close> or \<^verbatim>\<open>".."\<close> is answered with a \<^verbatim>\<open>TypeError\<close>, and a key whose UTF-8
  encoding is longer than 512 bytes with the error of status 414 whose message holds the
  measured length and the limit 512; in both cases no request has been issued.
\<close>

theorem keyed_operations_reject_bad_keys:
  "((key = [] \<or> key = ascii ''.'' \<or> key = ascii ''..'') \<longrightarrow>
      (\<exists>msg. get this key gopts fetch = (Inl (TypeError msg), [])
          \<and> getWithMetadata this key gopts fetch = (Inl (TypeError msg), [])
          \<and> put this clock key v popts fetch = (Inl (TypeError msg), [])
          \<and> delete this key fetch = (Inl (TypeError msg), [])))
   \<and> (utf8_byteLength key > 512 \<longrightarrow>
        get this key gopts fetch
          = (Inl (throwKVError GET 414 (key_length_message (utf8_byteLength key))), [])
      \<and> getWithMetadata this key gopts fetch
          = (Inl (throwKVError GET 414 (key_length_message (utf8_byteLength key))), [])
      \<and> put this clock key v popts fetch
          = (Inl (throwKVError PUT 414 (key_length_message (utf8_byteLength key))), [])
      \<and> delete this key fetch
          = (Inl (throwKVError DELETE 414 (key_length_message (utf8_byteLength key))), []))"
proof (intro conjI impI)
  assume "key = [] \<or> key = ascii ''.'' \<or> key = ascii ''..''"
  then obtain msg where m: "\<And>m. validateKey m key = Inl (TypeError msg)"
    using validateKey_special by blast
  show "\<exists>msg. get this key gopts fetch = (Inl (TypeError msg), [])
          \<and> getWithMetadata this key gopts fetch = (Inl (TypeError msg), [])
          \<and> put this clock key v popts fetch = (Inl (TypeError msg), [])
          \<and> delete this key fetch = (Inl (TypeError msg), [])"
    using get_key_error [OF m] getWithMetadata_key_error [OF m] put_key_error [OF m]
      delete_key_error [OF m] by blast
next
  assume "utf8_byteLength key > 512"
  then show "get this key gopts fetch
          = (Inl (throwKVError GET 414 (key_length_message (utf8_byteLength key))), [])"
    by (simp add: get_key_error validateKey_long)
next
  assume "utf8_byteLength key > 512"
  then show "getWithMetadata this key gopts fetch
          = (Inl (throwKVError GET 414 (key_length_message (utf8_byteLength key))), [])"
    by (simp add: getWithMetadata_key_error validateKey_long)
next
  assume "utf8_byteLength key > 512"
  then show "put this clock key v popts fetch
          = (Inl (throwKVError PUT 414 (key_length_message (utf8_byteLength key))), [])"
    by (simp add: put_key_error validateKey_long)
next
  assume "utf8_byteLength key > 512"
  then show "delete this key fetch
          = (Inl (throwKVError DELETE 414 (key_length_message (utf8_byteLength key))), [])"
    by (simp add: delete_key_error validateKey_long)
qed

lemma utf8_byteLength_replicate:
  "\<not> is_high_surrogate c \<Longrightarrow> utf8_byteLength (replicate n c) = n * unit_bytes c"
proof (induction n rule: less_induct)
  case (less n)
  show ?case
  proof (cases n)
    case 0
    then show ?thesis by simp
  next
    case (Suc m)
    show ?thesis
    proof (cases m)
      case 0
      with Suc show ?thesis by simp
    next
      case (Suc k)
      have "utf8_byteLength (replicate (Suc k) c) = Suc k * unit_bytes c"
        using less.IH [of "Suc k"] less.prems \<open>n = Suc m\<close> Suc by simp
      then show ?thesis
        using less.prems \<open>n = Suc m\<close> Suc by simp
    qed
  qed
qed

theorem keyed_operations_reject_bad_keys_witness:
  "utf8_byteLength (replicate 513 0x61) > 512
   \<and> get token_client (replicate 513 0x61) OptUndefined null_server
       = (Inl (throwKVError GET 414 (key_length_message 513)), [])
   \<and> delete token_client (replicate 513 0x61) null_server
       = (Inl (throwKVError DELETE 414 (key_length_message 513)), [])
   \<and> put token_client clock0 (ascii ''..'') (JS (JStr (ascii ''v''))) no_put_options null_server
       = (Inl (TypeError [Lit (dq @ ''..'' @ dq @ '' is not allowed as a key name.'')]), [])"
proof -
  have len: "utf8_byteLength (replicate 513 0x61) = 513"
    by (simp add: utf8_byteLength_replicate is_high_surrogate_def unit_bytes_def)
  have dots: "validateKey PUT (ascii ''..'') = Inl (TypeError [Lit (dq @ ''..'' @ dq @ '' is not allowed as a key name.'')])"
    by (simp add: validateKey_def ascii_def)
  have "\<exists>msg. put token_client clock0 (ascii ''..'') (JS (JStr (ascii ''v''))) no_put_options null_server = (Inl (TypeError msg), [])"
    using keyed_operations_reject_bad_keys [of "ascii ''..''" token_client OptUndefined null_server clock0 "JS (JStr (ascii ''v''))" no_put_options]
    by blast
  moreover have "put token_client clock0 (ascii ''..'') (JS (JStr (ascii ''v''))) no_put_options null_server = (Inl (TypeError [Lit (dq @ ''..'' @ dq @ '' is not allowed as a key name.'')]), [])"
    using dots by (simp add: put_key_error)
  ultimately show ?thesis
    using len keyed_operations_reject_bad_keys [of "replicate 513 0x61" token_client OptUndefined null_server clock0 "JS (JStr (ascii ''v''))" no_put_options]
    by simp
qed

subsection \<open>Listing\<close>





subsection \<open>Reading\<close>

lemma text_in_types: "ascii ''text'' \<in> getValueTypes"
  by (simp add: getValueTypes_def)


lemma get_success:
  assumes "validateKey GET key = Inr ()" "validateGetOptions options = Inr type"
    "fetch (values_request this GET key) = Some r"
  shows "get this key options fetch =
     (if res_status r = 404 then (Inr null, [values_request this GET key])
      else if type = ascii ''text'' then (Inr (JS (JStr (res_text r))), [values_request this GET key])
      else if type = ascii ''json'' then
         (case res_json r of None \<Rightarrow> (Inl SyntaxError, [values_request this GET key])
          | Some j \<Rightarrow> (Inr (JS j), [values_request this GET key]))
      else if type = ascii ''arrayBuffer'' then
         (Inr (ArrayBuffer (res_arrayBuffer r)), [values_request this GET key])
      else (case res_body r of None \<Rightarrow> (Inr null, [values_request this GET key])
            | Some b \<Rightarrow> (Inr (ReadableStream b), [values_request this GET key])))"
  using assms by (simp add: get_def Let_def)


lemma get_requests:
  assumes "validateKey GET key = Inr ()" "validateGetOptions options = Inr type"
  shows "snd (get this key options fetch) = [values_request this GET key]"
  using assms by (simp add: get_def Let_def split: option.splits)

lemma getWithMetadata_null:
  assumes "get this key options fetch = (Inr null, reqs)"
  shows "getWithMetadata this key options fetch
           = (Inr \<lparr>vm_value = null, vm_metadata = Some JNull\<rparr>, reqs)"
  using assms by (simp add: getWithMetadata_def)

lemma getWithMetadata_not_null:
  assumes "get this key options fetch = (Inr v, reqs)" "v \<noteq> null"
  shows "snd (getWithMetadata this key options fetch) = reqs @ [metadata_request this key]"
    and "fetch (metadata_request this key) = Some m \<Longrightarrow> res_json m = Some (JObj fs) \<Longrightarrow>
         getWithMetadata this key options fetch
           = (Inr \<lparr>vm_value = v, vm_metadata = map_of fs (ascii ''result'')\<rparr>,
              reqs @ [metadata_request this key])"
  using assms
  by (simp_all add: getWithMetadata_def Let_def json_property_def split: option.splits sum.splits json.splits)



subsection \<open>The cache directive\<close>

lemma validateGetOptions_ttl_error:
  assumes "truthy_num c" "js_lt c MIN_CACHE_TTL"
  shows "validateGetOptions (OptObject \<lparr>gtype = t, cacheTtl = Some c\<rparr>)
           = Inl (throwKVError GET 400 (cache_ttl_message c))"
  using assms by (simp add: validateGetOptions_def options_cacheTtl_def truthy_opt_num_def)

lemma validateGetOptions_ttl_ignored:
  assumes "\<not> (truthy_num c \<and> js_lt c MIN_CACHE_TTL)"
  shows "validateGetOptions (OptObject \<lparr>gtype = t, cacheTtl = Some c\<rparr>)
           = validateGetOptions (OptObject \<lparr>gtype = t, cacheTtl = None\<rparr>)"
  using assms
  by (auto simp: validateGetOptions_def options_cacheTtl_def options_type_def truthy_opt_num_def
      truthy_num_def isNaN_def Let_def)

lemma get_options_error:
  "validateKey GET key = Inr () \<Longrightarrow> validateGetOptions options = Inl e \<Longrightarrow>
   get this key options fetch = (Inl e, [])"
  by (simp add: get_def)

lemma get_options_cong:
  assumes "validateGetOptions options = validateGetOptions options'"
  shows "get this key options fetch = get this key options' fetch"
  unfolding get_def assms by (rule refl)

lemma getWithMetadata_cong:
  "get this key options fetch = get this key options' fetch \<Longrightarrow>
   getWithMetadata this key options fetch = getWithMetadata this key options' fetch"
  by (simp add: getWithMetadata_def)

lemma getWithMetadata_get_error:
  "get this key options fetch = (Inl e, reqs) \<Longrightarrow>
   getWithMetadata this key options fetch = (Inl e, reqs)"
  by (simp add: getWithMetadata_def)

lemma validateKey_k: "validateKey m (ascii ''k'') = Inr ()"
  by (simp add: validateKey_def ascii_def unit_bytes_def MAX_KEY_SIZE_def)

lemma get_text_result_server:
  "get token_client (ascii ''k'') (OptObject \<lparr>gtype = None, cacheTtl = None\<rparr>) result_server
     = (Inr (JS (JStr (res_text result_response))), [values_request token_client GET (ascii ''k'')])"
  by (simp add: get_def validateKey_k validateGetOptions_def options_type_def
      options_cacheTtl_def truthy_opt_num_def text_in_types result_server_def result_response_def)

lemma getWithMetadata_text_result_server:
  "getWithMetadata token_client (ascii ''k'') (OptObject \<lparr>gtype = None, cacheTtl = None\<rparr>)
     result_server
     = (Inr \<lparr>vm_value = JS (JStr (res_text result_response)),
             vm_metadata = Some (JObj [(ascii ''a'', JNum 1)])\<rparr>,
        [values_request token_client GET (ascii ''k''), metadata_request token_client (ascii ''k'')])"
proof -
  have n: "JS (JStr (res_text result_response)) \<noteq> null"
    by simp
  have f: "result_server (metadata_request token_client (ascii ''k'')) = Some result_response"
    by (simp add: result_server_def)
  have j: "res_json result_response = Some (JObj [(ascii ''result'', JObj [(ascii ''a'', JNum 1)])])"
    by (simp add: result_response_def result_json_def)
  show ?thesis
    using getWithMetadata_not_null(2) [OF get_text_result_server n f j] by simp
qed

text \<open>
  Claim C9 says that a cache directive below the floor of 60 seconds makes \<^verbatim>\<open>get\<close> and
  \<^verbatim>\<open>getWithMetadata\<close> fail. The floor is tested behind \<^verbatim>\<open>cacheTtl && ...\<close>, so the directive
  0 skips the test: \<^verbatim>\<open>get("k", {cacheTtl: 0})\<close> and \<^verbatim>\<open>getWithMetadata("k", {cacheTtl: 0})\<close>
  issue their requests and answer with the value.
\<close>

theorem get_cache_ttl_zero_is_ignored:
  "js_lt (Fin 0) MIN_CACHE_TTL
   \<and> get token_client (ascii ''k'') (OptObject \<lparr>gtype = None, cacheTtl = Some (Fin 0)\<rparr>) result_server
     = (Inr (JS (JStr (res_text result_response))), [values_request token_client GET (ascii ''k'')])
   \<and> getWithMetadata token_client (ascii ''k'') (OptObject \<lparr>gtype = None, cacheTtl = Some (Fin 0)\<rparr>)
       result_server
     = (Inr \<lparr>vm_value = JS (JStr (res_text result_response)),
             vm_metadata = Some (JObj [(ascii ''a'', JNum 1)])\<rparr>,
        [values_request token_client GET (ascii ''k''), metadata_request token_client (ascii ''k'')])"
proof -
  have "validateGetOptions (OptObject \<lparr>gtype = None, cacheTtl = Some (Fin 0)\<rparr>)
          = validateGetOptions (OptObject \<lparr>gtype = None, cacheTtl = None\<rparr>)"
    by (rule validateGetOptions_ttl_ignored) (simp add: truthy_num_def)
  then have g: "get token_client (ascii ''k'') (OptObject \<lparr>gtype = None, cacheTtl = Some (Fin 0)\<rparr>) result_server
     = get token_client (ascii ''k'') (OptObject \<lparr>gtype = None, cacheTtl = None\<rparr>) result_server"
    by (rule get_options_cong)
  then have "getWithMetadata token_client (ascii ''k'') (OptObject \<lparr>gtype = None, cacheTtl = Some (Fin 0)\<rparr>)
       result_server
     = getWithMetadata token_client (ascii ''k'') (OptObject \<lparr>gtype = None, cacheTtl = None\<rparr>)
       result_server"
    by (rule getWithMetadata_cong)
  with g show ?thesis
    using get_text_result_server getWithMetadata_text_result_server by (simp add: MIN_CACHE_TTL_def)
qed

text \<open>
  The floor of the cache directive where it is tested. In \<^verbatim>\<open>get\<close> and \<^verbatim>\<open>getWithMetadata\<close> on
  a valid key, a \<^verbatim>\<open>cacheTtl\<close> that is truthy and below 60 is answered with the error of status
  400 whose message holds the value and the floor 60, before any request. A \<^verbatim>\<open>cacheTtl\<close> of
  60 or more changes nothing: the call behaves as the call without it, in its result and
  in its requests.
\<close>

theorem cache_ttl_floor:
  "(validateKey GET key = Inr () \<and> truthy_num c \<and> js_lt c MIN_CACHE_TTL \<longrightarrow>
      get this key (OptObject \<lparr>gtype = t, cacheTtl = Some c\<rparr>) fetch
        = (Inl (throwKVError GET 400 (cache_ttl_message c)), [])
    \<and> getWithMetadata this key (OptObject \<lparr>gtype = t, cacheTtl = Some c\<rparr>) fetch
        = (Inl (throwKVError GET 400 (cache_ttl_message c)), []))
   \<and> (js_le MIN_CACHE_TTL c \<longrightarrow>
      get this key (OptObject \<lparr>gtype = t, cacheTtl = Some c\<rparr>) fetch
        = get this key (OptObject \<lparr>gtype = t, cacheTtl = None\<rparr>) fetch
    \<and> getWithMetadata this key (OptObject \<lparr>gtype = t, cacheTtl = Some c\<rparr>) fetch
        = getWithMetadata this key (OptObject \<lparr>gtype = t, cacheTtl = None\<rparr>) fetch)"
proof (intro conjI impI)
  assume a: "validateKey GET key = Inr () \<and> truthy_num c \<and> js_lt c MIN_CACHE_TTL"
  then show g: "get this key (OptObject \<lparr>gtype = t, cacheTtl = Some c\<rparr>) fetch
        = (Inl (throwKVError GET 400 (cache_ttl_message c)), [])"
    by (simp add: get_options_error validateGetOptions_ttl_error)
  then show "getWithMetadata this key (OptObject \<lparr>gtype = t, cacheTtl = Some c\<rparr>) fetch
        = (Inl (throwKVError GET 400 (cache_ttl_message c)), [])"
    by (rule getWithMetadata_get_error)
next
  assume "js_le MIN_CACHE_TTL c"
  then have "\<not> (truthy_num c \<and> js_lt c MIN_CACHE_TTL)"
    by (simp add: js_le_def)
  then show g: "get this key (OptObject \<lparr>gtype = t, cacheTtl = Some c\<rparr>) fetch
        = get this key (OptObject \<lparr>gtype = t, cacheTtl = None\<rparr>) fetch"
    by (intro get_options_cong validateGetOptions_ttl_ignored)
  then show "getWithMetadata this key (OptObject \<lparr>gtype = t, cacheTtl = Some c\<rparr>) fetch
        = getWithMetadata this key (OptObject \<lparr>gtype = t, cacheTtl = None\<rparr>) fetch"
    by (rule getWithMetadata_cong)
qed

theorem cache_ttl_floor_witness:
  "get token_client (ascii ''k'') (OptObject \<lparr>gtype = None, cacheTtl = Some (Fin 30)\<rparr>) result_server
     = (Inl (throwKVError GET 400 (cache_ttl_message (Fin 30))), [])
   \<and> get token_client (ascii ''k'') (OptObject \<lparr>gtype = None, cacheTtl = Some (Fin 3600)\<rparr>) result_server
     = (Inr (JS (JStr (res_text result_response))), [values_request token_client GET (ascii ''k'')])"
proof -
  have a: "truthy_num (Fin 30) \<and> js_lt (Fin 30) MIN_CACHE_TTL"
    by (simp add: truthy_num_def MIN_CACHE_TTL_def)
  have b: "js_le MIN_CACHE_TTL (Fin 3600)"
    by (simp add: js_le_def MIN_CACHE_TTL_def)
  show ?thesis
    using cache_ttl_floor [of "ascii ''k''" "Fin 30" token_client None result_server]
      cache_ttl_floor [of "ascii ''k''" "Fin 3600" token_client None result_server]
      a b validateKey_k get_text_result_server by simp
qed

subsection \<open>Absent keys and metadata\<close>

text \<open>
  Claim C3, as the code has it. On a valid key and valid options, when the value lookup
  answers 404, \<^verbatim>\<open>get\<close> returns \<^verbatim>\<open>null\<close> and \<^verbatim>\<open>getWithMetadata\<close> returns
  \<^verbatim>\<open>{value: null, metadata: null}\<close>, the value lookup being the only request. The test in
  \<^verbatim>\<open>getWithMetadata\<close> is \<^verbatim>\<open>value === null\<close>, so every value lookup that yields \<^verbatim>\<open>null\<close> is
  answered in this way. When \<^verbatim>\<open>get\<close> yields a value other than \<^verbatim>\<open>null\<close>, \<^verbatim>\<open>getWithMetadata\<close>
  issues exactly one more request, to \<^verbatim>\<open>/metadata/{key}\<close>, and when that response parses to
  a JSON object the metadata is its \<^verbatim>\<open>result\<close> property.
\<close>

theorem getWithMetadata_metadata_fetch:
  assumes "validateKey GET key = Inr ()" "validateGetOptions options = Inr type"
    "fetch (values_request this GET key) = Some r"
  shows "(res_status r = 404 \<longrightarrow>
            get this key options fetch = (Inr null, [values_request this GET key])
          \<and> getWithMetadata this key options fetch
              = (Inr \<lparr>vm_value = null, vm_metadata = Some JNull\<rparr>, [values_request this GET key]))
       \<and> (get this key options fetch = (Inr null, [values_request this GET key]) \<longrightarrow>
            getWithMetadata this key options fetch
              = (Inr \<lparr>vm_value = null, vm_metadata = Some JNull\<rparr>, [values_request this GET key]))
       \<and> (\<forall>v. get this key options fetch = (Inr v, [values_request this GET key]) \<and> v \<noteq> null \<longrightarrow>
            snd (getWithMetadata this key options fetch)
              = [values_request this GET key, metadata_request this key]
          \<and> (\<forall>m fs. fetch (metadata_request this key) = Some m \<and> res_json m = Some (JObj fs) \<longrightarrow>
                getWithMetadata this key options fetch
                  = (Inr \<lparr>vm_value = v, vm_metadata = map_of fs (ascii ''result'')\<rparr>,
                     [values_request this GET key, metadata_request this key])))"
proof (intro conjI impI allI)
  assume "res_status r = 404"
  then show g: "get this key options fetch = (Inr null, [values_request this GET key])"
    using get_success [of key options type fetch this r] assms by simp
  then show "getWithMetadata this key options fetch
              = (Inr \<lparr>vm_value = null, vm_metadata = Some JNull\<rparr>, [values_request this GET key])"
    by (rule getWithMetadata_null)
next
  assume "get this key options fetch = (Inr null, [values_request this GET key])"
  then show "getWithMetadata this key options fetch
              = (Inr \<lparr>vm_value = null, vm_metadata = Some JNull\<rparr>, [values_request this GET key])"
    by (rule getWithMetadata_null)
next
  fix v
  assume "get this key options fetch = (Inr v, [values_request this GET key]) \<and> v \<noteq> null"
  then show "snd (getWithMetadata this key options fetch)
              = [values_request this GET key, metadata_request this key]"
    using getWithMetadata_not_null(1) [of this key options fetch v "[values_request this GET key]"]
    by simp
next
  fix v m fs
  assume "get this key options fetch = (Inr v, [values_request this GET key]) \<and> v \<noteq> null"
    and "fetch (metadata_request this key) = Some m \<and> res_json m = Some (JObj fs)"
  then show "getWithMetadata this key options fetch
                  = (Inr \<lparr>vm_value = v, vm_metadata = map_of fs (ascii ''result'')\<rparr>,
                     [values_request this GET key, metadata_request this key])"
    using getWithMetadata_not_null(2) [of this key options fetch v "[values_request this GET key]" m fs]
    by simp
qed

lemma validateGetOptions_json: "validateGetOptions (OptString (ascii ''json'')) = Inr (ascii ''json'')"
  by (simp add: validateGetOptions_def options_type_def options_cacheTtl_def truthy_opt_num_def
      getValueTypes_def)

lemma json_not_text: "ascii ''json'' \<noteq> ascii ''text''"
  by (simp add: ascii_def)

theorem getWithMetadata_metadata_fetch_witness:
  "getWithMetadata token_client (ascii ''k'') (OptString (ascii ''json'')) not_found_server
     = (Inr \<lparr>vm_value = null, vm_metadata = Some JNull\<rparr>, [values_request token_client GET (ascii ''k'')])
   \<and> getWithMetadata token_client (ascii ''k'') (OptString (ascii ''json'')) result_server
     = (Inr \<lparr>vm_value = JS result_json, vm_metadata = Some (JObj [(ascii ''a'', JNum 1)])\<rparr>,
        [values_request token_client GET (ascii ''k''), metadata_request token_client (ascii ''k'')])"
proof -
  have nf: "not_found_server (values_request token_client GET (ascii ''k'')) = Some not_found_response"
    "res_status not_found_response = 404"
    by (simp_all add: not_found_server_def not_found_response_def)
  have rs: "result_server (values_request token_client GET (ascii ''k'')) = Some result_response"
    "result_server (metadata_request token_client (ascii ''k'')) = Some result_response"
    "res_json result_response = Some (JObj [(ascii ''result'', JObj [(ascii ''a'', JNum 1)])])"
    by (simp_all add: result_server_def result_response_def result_json_def)
  have g: "get token_client (ascii ''k'') (OptString (ascii ''json'')) result_server
             = (Inr (JS result_json), [values_request token_client GET (ascii ''k'')])"
    using get_success [of "ascii ''k''" "OptString (ascii ''json'')" "ascii ''json''" result_server
        token_client result_response]
    by (simp add: validateKey_k validateGetOptions_json rs(1) result_response_def json_not_text)
  have nn: "JS result_json \<noteq> null"
    by (simp add: result_json_def)
  have a: "getWithMetadata token_client (ascii ''k'') (OptString (ascii ''json'')) not_found_server
     = (Inr \<lparr>vm_value = null, vm_metadata = Some JNull\<rparr>, [values_request token_client GET (ascii ''k'')])"
    using getWithMetadata_metadata_fetch [of "ascii ''k''" "OptString (ascii ''json'')" "ascii ''json''"
        not_found_server token_client not_found_response]
      validateKey_k validateGetOptions_json nf by simp
  have b: "getWithMetadata token_client (ascii ''k'') (OptString (ascii ''json'')) result_server
     = (Inr \<lparr>vm_value = JS result_json, vm_metadata = map_of [(ascii ''result'', JObj [(ascii ''a'', JNum 1)])] (ascii ''result'')\<rparr>,
        [values_request token_client GET (ascii ''k''), metadata_request token_client (ascii ''k'')])"
    using getWithMetadata_metadata_fetch [of "ascii ''k''" "OptString (ascii ''json'')" "ascii ''json''"
        result_server token_client result_response]
      validateKey_k validateGetOptions_json rs g nn by blast
  from a b show ?thesis by simp
qed

text \<open>
  The claim as stated fails on a response that is not a 404 and whose value is \<^verbatim>\<open>null\<close>: a
  key that holds the JSON text \<^verbatim>\<open>null\<close>, read with the type \<^verbatim>\<open>'json'\<close>. No metadata request
  is issued.
\<close>

theorem getWithMetadata_json_null_counterexample:
  "null_server (values_request token_client GET (ascii ''k'')) = Some null_response
   \<and> res_status null_response = 200
   \<and> getWithMetadata token_client (ascii ''k'') (OptString (ascii ''json'')) null_server
     = (Inr \<lparr>vm_value = null, vm_metadata = Some JNull\<rparr>, [values_request token_client GET (ascii ''k'')])"
proof -
  have g: "get token_client (ascii ''k'') (OptString (ascii ''json'')) null_server
             = (Inr null, [values_request token_client GET (ascii ''k'')])"
    using get_success [of "ascii ''k''" "OptString (ascii ''json'')" "ascii ''json''" null_server
        token_client null_response]
    by (simp add: validateKey_k validateGetOptions_json null_server_def null_response_def json_not_text)
  show ?thesis
    using getWithMetadata_null [OF g] by (simp add: null_server_def null_response_def)
qed

subsection \<open>Construction and headers\<close>

lemma get_headers: "req \<in> set (snd (get this key options fetch)) \<Longrightarrow> req_headers req = headers this"
  by (auto simp: get_def Let_def values_request_def split: sum.splits option.splits if_splits)

lemma getWithMetadata_headers:
  "req \<in> set (snd (getWithMetadata this key options fetch)) \<Longrightarrow> req_headers req = headers this"
proof -
  assume a: "req \<in> set (snd (getWithMetadata this key options fetch))"
  obtain res reqs where g: "get this key options fetch = (res, reqs)"
    by (cases "get this key options fetch")
  have "set (snd (getWithMetadata this key options fetch)) \<subseteq> set reqs \<union> {metadata_request this key}"
    using g by (auto simp: getWithMetadata_def Let_def split: sum.splits option.splits if_splits)
  with a have "req \<in> set (snd (get this key options fetch)) \<or> req = metadata_request this key"
    using g by auto
  then show ?thesis using get_headers by (auto simp: metadata_request_def)
qed

lemma put_headers:
  "req \<in> set (snd (put this clock key v options fetch)) \<Longrightarrow> req_headers req = headers this"
  by (auto simp: put_def Let_def bulk_request_def split: sum.splits option.splits)

lemma delete_headers:
  "req \<in> set (snd (delete this key fetch)) \<Longrightarrow> req_headers req = headers this"
  by (auto simp: delete_def Let_def values_request_def split: sum.splits option.splits)

lemma list_headers:
  "req \<in> set (snd (list this options fetch)) \<Longrightarrow> req_headers req = headers this"
  by (auto simp: list_def Let_def list_request_def split: option.splits if_splits)


lemma new_CloudflareKV_Inr:
  assumes "new_CloudflareKV options = Inr this"
  shows "headers this ''content-type'' = Some (ascii ''application/json'')"
    and "headers this ''authorization''
           = (if truthy_str (api_token options)
              then Some (ascii ''Bearer '' @ the (api_token options)) else None)"
    and "headers this ''x-api-email''
           = (if truthy_str (api_email options) \<and> truthy_str (api_key options)
              then api_email options else None)"
    and "headers this ''x-auth-key''
           = (if truthy_str (api_email options) \<and> truthy_str (api_key options)
              then api_key options else None)"
    and "dom (headers this) \<subseteq> {''content-type'', ''authorization'', ''x-api-email'', ''x-auth-key''}"
  using assms
  by (auto simp: new_CloudflareKV_def Let_def truthy_str_def split: if_splits option.splits)

text \<open>
  Claim C7, as the code has it. The constructor throws when \<^verbatim>\<open>account_id\<close> or
  \<^verbatim>\<open>namespace_id\<close> is empty, and throws when \<^verbatim>\<open>api_email\<close>, \<^verbatim>\<open>api_key\<close> and \<^verbatim>\<open>api_token\<close> are all
  missing or empty. When it succeeds, the header object holds the JSON content type, the
  bearer authorization exactly when \<^verbatim>\<open>api_token\<close> is non-empty, the e-mail and key pair exactly
  when \<^verbatim>\<open>api_email\<close> and \<^verbatim>\<open>api_key\<close> are both non-empty, and nothing else; and every request of
  every operation carries this header object.
\<close>

theorem constructor_headers:
  "(account_id options = [] \<or> namespace_id options = [] \<longrightarrow>
      new_CloudflareKV options = Inl (Error [Lit ''Missing account_id or namespace_id'']))
   \<and> (account_id options \<noteq> [] \<and> namespace_id options \<noteq> [] \<and> \<not> truthy_str (api_email options)
        \<and> \<not> truthy_str (api_key options) \<and> \<not> truthy_str (api_token options) \<longrightarrow>
      new_CloudflareKV options = Inl (Error [Lit ''Missing api_email, api_key or api_token'']))
   \<and> (\<forall>this. new_CloudflareKV options = Inr this \<longrightarrow>
        headers this ''content-type'' = Some (ascii ''application/json'')
      \<and> headers this ''authorization''
           = (if truthy_str (api_token options)
              then Some (ascii ''Bearer '' @ the (api_token options)) else None)
      \<and> headers this ''x-api-email''
           = (if truthy_str (api_email options) \<and> truthy_str (api_key options)
              then api_email options else None)
      \<and> headers this ''x-auth-key''
           = (if truthy_str (api_email options) \<and> truthy_str (api_key options)
              then api_key options else None)
      \<and> dom (headers this) \<subseteq> {''content-type'', ''authorization'', ''x-api-email'', ''x-auth-key''}
      \<and> (\<forall>req \<in> set (snd (get this key gopts fetch))
                \<union> set (snd (getWithMetadata this key gopts fetch))
                \<union> set (snd (put this clock key v popts fetch))
                \<union> set (snd (delete this key fetch))
                \<union> set (snd (list this lopts lfetch)).
            req_headers req = headers this))"
proof (intro conjI impI allI)
  assume "account_id options = [] \<or> namespace_id options = []"
  then show "new_CloudflareKV options = Inl (Error [Lit ''Missing account_id or namespace_id''])"
    by (auto simp: new_CloudflareKV_def)
next
  assume "account_id options \<noteq> [] \<and> namespace_id options \<noteq> [] \<and> \<not> truthy_str (api_email options)
        \<and> \<not> truthy_str (api_key options) \<and> \<not> truthy_str (api_token options)"
  then show "new_CloudflareKV options = Inl (Error [Lit ''Missing api_email, api_key or api_token''])"
    by (simp add: new_CloudflareKV_def Let_def)
next
  fix this
  assume c: "new_CloudflareKV options = Inr this"
  show "headers this ''content-type'' = Some (ascii ''application/json'')"
    using new_CloudflareKV_Inr(1) [OF c] .
  show "headers this ''authorization''
           = (if truthy_str (api_token options)
              then Some (ascii ''Bearer '' @ the (api_token options)) else None)"
    using new_CloudflareKV_Inr(2) [OF c] .
  show "headers this ''x-api-email''
           = (if truthy_str (api_email options) \<and> truthy_str (api_key options)
              then api_email options else None)"
    using new_CloudflareKV_Inr(3) [OF c] .
  show "headers this ''x-auth-key''
           = (if truthy_str (api_email options) \<and> truthy_str (api_key options)
              then api_key options else None)"
    using new_CloudflareKV_Inr(4) [OF c] .
  show "dom (headers this) \<subseteq> {''content-type'', ''authorization'', ''x-api-email'', ''x-auth-key''}"
    using new_CloudflareKV_Inr(5) [OF c] .
  show "\<forall>req \<in> set (snd (get this key gopts fetch))
                \<union> set (snd (getWithMetadata this key gopts fetch))
                \<union> set (snd (put this clock key v popts fetch))
                \<union> set (snd (delete this key fetch))
                \<union> set (snd (list this lopts lfetch)).
            req_headers req = headers this"
    using get_headers getWithMetadata_headers put_headers delete_headers list_headers
    by (metis Un_iff)
qed

lemma new_token_client: "new_CloudflareKV token_options = Inr token_client"
  by (simp add: new_CloudflareKV_def token_options_def token_client_def truthy_str_def
      js_replace_def baseUrl_template_def ascii_def)

theorem constructor_headers_witness:
  "new_CloudflareKV token_options = Inr token_client
   \<and> headers token_client ''content-type'' = Some (ascii ''application/json'')
   \<and> headers token_client ''authorization'' = Some (ascii ''Bearer secret'')
   \<and> headers token_client ''x-api-email'' = None
   \<and> headers token_client ''x-auth-key'' = None
   \<and> req_headers (values_request token_client GET (ascii ''k'')) = headers token_client"
proof -
  have g: "values_request token_client GET (ascii ''k'')
             \<in> set (snd (get token_client (ascii ''k'') OptUndefined null_server))"
    using get_requests [of "ascii ''k''" OptUndefined "ascii ''text''" token_client null_server]
    by (simp add: validateKey_k validateGetOptions_def options_type_def options_cacheTtl_def
        truthy_opt_num_def text_in_types)
  have "truthy_str (api_token token_options)" "\<not> truthy_str (api_email token_options)"
    "ascii ''Bearer '' @ the (api_token token_options) = ascii ''Bearer secret''"
    by (simp_all add: token_options_def truthy_str_def ascii_def)
  then show ?thesis
    using constructor_headers [of token_options "ascii ''k''" OptUndefined null_server clock0
        "JS (JStr (ascii ''v''))" no_put_options no_list_options page_server]
      new_token_client g by auto
qed

text \<open>
  The claim as stated fails twice: with both schemes supplied the headers hold both, not
  the token alone; with an e-mail address and nothing else the constructor succeeds and the
  headers hold no credential at all.
\<close>

theorem constructor_two_schemes_counterexample:
  "new_CloudflareKV both_options = Inr both_client
   \<and> headers both_client ''authorization'' = Some (ascii ''Bearer secret'')
   \<and> headers both_client ''x-api-email'' = Some (ascii ''a@b.c'')
   \<and> headers both_client ''x-auth-key'' = Some (ascii ''k'')
   \<and> new_CloudflareKV email_only_options = Inr email_only_client
   \<and> headers email_only_client ''authorization'' = None
   \<and> headers email_only_client ''x-api-email'' = None
   \<and> headers email_only_client ''x-auth-key'' = None"
proof -
  have a: "new_CloudflareKV both_options = Inr both_client"
    by (simp add: new_CloudflareKV_def both_options_def both_client_def truthy_str_def
        js_replace_def baseUrl_template_def ascii_def)
  have b: "new_CloudflareKV email_only_options = Inr email_only_client"
    by (simp add: new_CloudflareKV_def email_only_options_def email_only_client_def truthy_str_def
        js_replace_def baseUrl_template_def ascii_def)
  from a b show ?thesis
    by (simp add: both_client_def email_only_client_def)
qed

subsection \<open>The limit of a listing\<close>

lemma limit_param:
  assumes "\<not> isNaN (requested_limit options)" "\<not> js_lt (requested_limit options) (Fin 1)"
  shows "(''limit'', Num (requested_limit options))
           \<in> set (req_searchParams (list_request this options))"
proof -
  have "truthy_num (requested_limit options)"
    using assms by (cases "requested_limit options") (auto simp: truthy_num_def isNaN_def)
  then show ?thesis by (simp add: list_request_def Let_def)
qed

lemma list_requests_valid:
  assumes "\<not> isNaN (requested_limit options)" "\<not> js_lt (requested_limit options) (Fin 1)"
    "\<not> js_gt (requested_limit options) MAX_LIST_KEYS"
  shows "snd (list this options fetch) = [list_request this options]"
  using assms by (simp add: list_def Let_def split: option.splits)

text \<open>
  Claim C8, as the code has it. A \<^verbatim>\<open>limit\<close> that is NaN or below 1 is answered with the
  error of status 400 that asks for an integer greater than 0, a \<^verbatim>\<open>limit\<close> above 1000 with
  the error of status 400 that names the bound 1000, both before any request. Every other
  \<^verbatim>\<open>limit\<close>, whole or not, is accepted and sent as the \<^verbatim>\<open>limit\<close> parameter of the one request.
  With the option left out the limit is 1000, and it is sent as well.
\<close>

theorem list_limit_validation:
  "(isNaN l \<or> js_lt l (Fin 1) \<longrightarrow>
      list this (options\<lparr>limit := Some l\<rparr>) fetch
        = (Inl (throwKVError GET 400 (key_count_low_message l)), []))
   \<and> (\<not> isNaN l \<and> \<not> js_lt l (Fin 1) \<and> js_gt l MAX_LIST_KEYS \<longrightarrow>
      list this (options\<lparr>limit := Some l\<rparr>) fetch
        = (Inl (throwKVError GET 400 (key_count_high_message l)), []))
   \<and> (\<not> isNaN l \<and> \<not> js_lt l (Fin 1) \<and> \<not> js_gt l MAX_LIST_KEYS \<longrightarrow>
      snd (list this (options\<lparr>limit := Some l\<rparr>) fetch)
        = [list_request this (options\<lparr>limit := Some l\<rparr>)]
    \<and> (''limit'', Num l) \<in> set (req_searchParams (list_request this (options\<lparr>limit := Some l\<rparr>))))
   \<and> requested_limit (options\<lparr>limit := None\<rparr>) = Fin 1000
   \<and> snd (list this (options\<lparr>limit := None\<rparr>) fetch) = [list_request this (options\<lparr>limit := None\<rparr>)]
   \<and> (''limit'', Num (Fin 1000)) \<in> set (req_searchParams (list_request this (options\<lparr>limit := None\<rparr>)))"
proof -
  have rl: "requested_limit (options\<lparr>limit := Some l\<rparr>) = l"
    by (simp add: requested_limit_def)
  have rn: "requested_limit (options\<lparr>limit := None\<rparr>) = Fin 1000"
    by (simp add: requested_limit_def MAX_LIST_KEYS_def)
  have ok: "\<not> isNaN (Fin 1000)" "\<not> js_lt (Fin 1000) (Fin 1)" "\<not> js_gt (Fin 1000) MAX_LIST_KEYS"
    by (simp_all add: isNaN_def js_gt_def MAX_LIST_KEYS_def)
  have a: "list this (options\<lparr>limit := Some l\<rparr>) fetch
        = (Inl (throwKVError GET 400 (key_count_low_message l)), [])"
    if "isNaN l \<or> js_lt l (Fin 1)"
    using that by (simp add: list_def rl Let_def)
  have b: "list this (options\<lparr>limit := Some l\<rparr>) fetch
        = (Inl (throwKVError GET 400 (key_count_high_message l)), [])"
    if "\<not> isNaN l \<and> \<not> js_lt l (Fin 1) \<and> js_gt l MAX_LIST_KEYS"
    using that by (simp add: list_def rl Let_def)
  have c: "snd (list this (options\<lparr>limit := Some l\<rparr>) fetch)
        = [list_request this (options\<lparr>limit := Some l\<rparr>)]
    \<and> (''limit'', Num l) \<in> set (req_searchParams (list_request this (options\<lparr>limit := Some l\<rparr>)))"
    if "\<not> isNaN l \<and> \<not> js_lt l (Fin 1) \<and> \<not> js_gt l MAX_LIST_KEYS"
    using that list_requests_valid [of "options\<lparr>limit := Some l\<rparr>" this fetch]
      limit_param [of "options\<lparr>limit := Some l\<rparr>" this] by (simp add: rl)
  have d: "snd (list this (options\<lparr>limit := None\<rparr>) fetch) = [list_request this (options\<lparr>limit := None\<rparr>)]"
    using list_requests_valid [of "options\<lparr>limit := None\<rparr>" this fetch] ok by (simp add: rn)
  have e: "(''limit'', Num (Fin 1000)) \<in> set (req_searchParams (list_request this (options\<lparr>limit := None\<rparr>)))"
    using limit_param [of "options\<lparr>limit := None\<rparr>" this] ok by (simp add: rn)
  from a b c d e rn show ?thesis by blast
qed

theorem list_limit_validation_witness:
  "list token_client (no_list_options\<lparr>limit := Some (Fin 0)\<rparr>) page_server
     = (Inl (throwKVError GET 400 (key_count_low_message (Fin 0))), [])
   \<and> list token_client (no_list_options\<lparr>limit := Some (Fin 1001)\<rparr>) page_server
     = (Inl (throwKVError GET 400 (key_count_high_message (Fin 1001))), [])
   \<and> snd (list token_client (no_list_options\<lparr>limit := Some (Fin 2)\<rparr>) page_server)
     = [list_request token_client (no_list_options\<lparr>limit := Some (Fin 2)\<rparr>)]
   \<and> req_searchParams (list_request token_client (no_list_options\<lparr>limit := None\<rparr>))
     = [(''limit'', Num (Fin 1000))]"
proof -
  have p: "req_searchParams (list_request token_client (no_list_options\<lparr>limit := None\<rparr>))
     = [(''limit'', Num (Fin 1000))]"
    by (simp add: list_request_def requested_limit_def MAX_LIST_KEYS_def no_list_options_def
        truthy_num_def truthy_str_def)
  have c0: "isNaN (Fin 0) \<or> js_lt (Fin 0) (Fin 1)" by simp
  have c1: "\<not> isNaN (Fin 1001) \<and> \<not> js_lt (Fin 1001) (Fin 1) \<and> js_gt (Fin 1001) MAX_LIST_KEYS"
    by (simp add: isNaN_def js_gt_def MAX_LIST_KEYS_def)
  have c2: "\<not> isNaN (Fin 2) \<and> \<not> js_lt (Fin 2) (Fin 1) \<and> \<not> js_gt (Fin 2) MAX_LIST_KEYS"
    by (simp add: isNaN_def js_gt_def MAX_LIST_KEYS_def)
  show ?thesis
    using list_limit_validation [of "Fin 0" token_client no_list_options page_server]
      list_limit_validation [of "Fin 1001" token_client no_list_options page_server]
      list_limit_validation [of "Fin 2" token_client no_list_options page_server]
      c0 c1 c2 p by blast
qed

text \<open>
  The claim as stated fails for a limit that is not an integer: \<^verbatim>\<open>list({limit: 1.5})\<close>
  returns a page.
\<close>

theorem list_fractional_limit_counterexample:
  "(3 / 2 :: rat) \<notin> \<int>
   \<and> list token_client (no_list_options\<lparr>limit := Some (Fin (3 / 2))\<rparr>) page_server
     = (Inr \<lparr>keys = two_keys, result_cursor = ascii ''c1'', list_complete = False\<rparr>,
        [list_request token_client (no_list_options\<lparr>limit := Some (Fin (3 / 2))\<rparr>)])"
proof -
  have i: "(3 / 2 :: rat) \<notin> \<int>"
  proof
    assume "(3 / 2 :: rat) \<in> \<int>"
    then obtain z :: int where "(3 / 2 :: rat) = of_int z"
      by (auto elim: Ints_cases)
    then have "(of_int (2 * z) :: rat) = of_int 3"
      by simp
    then have "2 * z = 3"
      by (simp only: of_int_eq_iff)
    then show False
      by presburger
  qed
  have "list token_client (no_list_options\<lparr>limit := Some (Fin (3 / 2))\<rparr>) page_server
     = (Inr \<lparr>keys = two_keys, result_cursor = ascii ''c1'',
             list_complete = js_lt (js_of_nat (length two_keys)) (Fin (3 / 2))\<rparr>,
        [list_request token_client (no_list_options\<lparr>limit := Some (Fin (3 / 2))\<rparr>)])"
    by (simp add: list_def requested_limit_def no_list_options_def isNaN_def js_gt_def
        MAX_LIST_KEYS_def page_server_def page_response_def Let_def)
  with i show ?thesis
    by (simp add: two_keys_def js_of_nat_def)
qed

subsection \<open>Writing\<close>

lemma floor_add_half: "\<lfloor>(of_int i :: rat) + 1 / 2\<rfloor> = i"
  by (rule floor_unique) simp_all

lemma Math_round_of_int: "Math_round (Fin (of_int i)) = Fin (of_int i)"
  by (simp add: floor_add_half)

lemma put_no_expiration:
  assumes "validateKey PUT key = Inr ()" "put_stored v = Inr (Some st)"
    "\<not> truthy_opt_num (normaliseInt (expirationTtl options))" "expiration options = PUndefined"
    "put_check_sizes (Some st) options = Inr st" "fetch (bulk_request this
        \<lparr>item_expiration = None, item_expiration_ttl = normaliseInt (expirationTtl options),
         item_key = key, item_value = st, item_metadata = metadata options\<rparr>) \<noteq> None"
  shows "put this clock key v options fetch
           = (Inr (), [bulk_request this
                \<lparr>item_expiration = None, item_expiration_ttl = normaliseInt (expirationTtl options),
                 item_key = key, item_value = st, item_metadata = metadata options\<rparr>])"
  using assms by (auto simp: put_def put_expiration_def Let_def split: option.splits)

lemma small_value_sizes:
  assumes "length st \<le> MAX_VALUE_SIZE" "metadata options = None"
  shows "put_check_sizes (Some st) options = Inr st"
  using assms by (simp add: put_check_sizes_def)

text \<open>
  Claim C1 says that a TTL which is not a positive integer makes \<^verbatim>\<open>put\<close> fail. The block
  that checks the TTL is entered by \<^verbatim>\<open>if (expirationTtl)\<close>, so a TTL that normalises to 0 or
  to NaN skips every check: \<^verbatim>\<open>put("k", "v", {expirationTtl: 0})\<close> and
  \<^verbatim>\<open>put("k", "v", {expirationTtl: "abc"})\<close> both send the request, with no expiration and
  with the TTL as normalised.
\<close>

theorem put_ttl_zero_is_sent:
  "normaliseInt (PNumber (Fin 0)) = Some (Fin 0)
   \<and> put token_client clock0 (ascii ''k'') (JS (JStr (ascii ''v'')))
        (no_put_options\<lparr>expirationTtl := PNumber (Fin 0)\<rparr>) null_server
     = (Inr (), [bulk_request token_client
          \<lparr>item_expiration = None, item_expiration_ttl = Some (Fin 0), item_key = ascii ''k'',
           item_value = ascii ''v'', item_metadata = None\<rparr>])
   \<and> normaliseInt (PString (ascii ''abc'')) = Some NaN
   \<and> put token_client clock0 (ascii ''k'') (JS (JStr (ascii ''v'')))
        (no_put_options\<lparr>expirationTtl := PString (ascii ''abc'')\<rparr>) null_server
     = (Inr (), [bulk_request token_client
          \<lparr>item_expiration = None, item_expiration_ttl = Some NaN, item_key = ascii ''k'',
           item_value = ascii ''v'', item_metadata = None\<rparr>])"
proof -
  have z: "normaliseInt (PNumber (Fin 0)) = Some (Fin 0)"
    using Math_round_of_int [of 0] by simp
  have n: "normaliseInt (PString (ascii ''abc'')) = Some NaN"
    by (simp add: parseInt10_def ascii_def is_white_space_def is_digit_def)
  have s: "put_check_sizes (Some (ascii ''v'')) (no_put_options\<lparr>expirationTtl := e\<rparr>) = Inr (ascii ''v'')" for e
    by (rule small_value_sizes) (simp_all add: ascii_def MAX_VALUE_SIZE_def no_put_options_def)
  have a: "put token_client clock0 (ascii ''k'') (JS (JStr (ascii ''v'')))
        (no_put_options\<lparr>expirationTtl := PNumber (Fin 0)\<rparr>) null_server
     = (Inr (), [bulk_request token_client
          \<lparr>item_expiration = None, item_expiration_ttl = Some (Fin 0), item_key = ascii ''k'',
           item_value = ascii ''v'', item_metadata = None\<rparr>])"
    using put_no_expiration [of "ascii ''k''" "JS (JStr (ascii ''v''))" "ascii ''v''"
        "no_put_options\<lparr>expirationTtl := PNumber (Fin 0)\<rparr>" null_server token_client clock0]
      z s [of "PNumber (Fin 0)"]
    by (simp del: Math_round.simps normaliseInt.simps add: validateKey_k s truthy_opt_num_def truthy_num_def no_put_options_def
        null_server_def)
  have b: "put token_client clock0 (ascii ''k'') (JS (JStr (ascii ''v'')))
        (no_put_options\<lparr>expirationTtl := PString (ascii ''abc'')\<rparr>) null_server
     = (Inr (), [bulk_request token_client
          \<lparr>item_expiration = None, item_expiration_ttl = Some NaN, item_key = ascii ''k'',
           item_value = ascii ''v'', item_metadata = None\<rparr>])"
    using put_no_expiration [of "ascii ''k''" "JS (JStr (ascii ''v''))" "ascii ''v''"
        "no_put_options\<lparr>expirationTtl := PString (ascii ''abc'')\<rparr>" null_server token_client clock0]
      n s [of "PString (ascii ''abc'')"]
    by (simp add: validateKey_k truthy_opt_num_def truthy_num_def no_put_options_def
        null_server_def)
  from z n a b show ?thesis by simp
qed

text \<open>
  Claim C5 says that a value of more than 26,214,400 bytes makes \<^verbatim>\<open>put\<close> fail. The test is
  on \<^verbatim>\<open>stored.length\<close>, which counts UTF-16 code units: nine million euro signs are
  27,000,000 bytes of UTF-8 and a string of length 9,000,000, and \<^verbatim>\<open>put\<close> sends them.
\<close>

theorem put_value_length_counts_code_units:
  "utf8_byteLength (replicate 9000000 0x20AC) = 27000000
   \<and> MAX_VALUE_SIZE = 26214400
   \<and> put token_client clock0 (ascii ''k'') (JS (JStr (replicate 9000000 0x20AC)))
        no_put_options null_server
     = (Inr (), [bulk_request token_client
          \<lparr>item_expiration = None, item_expiration_ttl = None, item_key = ascii ''k'',
           item_value = replicate 9000000 0x20AC, item_metadata = None\<rparr>])"
proof -
  have u: "utf8_byteLength (replicate 9000000 0x20AC) = 27000000"
    by (simp add: utf8_byteLength_replicate is_high_surrogate_def unit_bytes_def)
  have m: "MAX_VALUE_SIZE = 26214400"
    by (simp add: MAX_VALUE_SIZE_def)
  have s: "put_check_sizes (Some (replicate 9000000 0x20AC)) no_put_options
             = Inr (replicate 9000000 0x20AC)"
    by (rule small_value_sizes) (simp_all add: m no_put_options_def)
  have "put token_client clock0 (ascii ''k'') (JS (JStr (replicate 9000000 0x20AC)))
        no_put_options null_server
     = (Inr (), [bulk_request token_client
          \<lparr>item_expiration = None, item_expiration_ttl = None, item_key = ascii ''k'',
           item_value = replicate 9000000 0x20AC, item_metadata = None\<rparr>])"
    using put_no_expiration [of "ascii ''k''" "JS (JStr (replicate 9000000 0x20AC))"
        "replicate 9000000 0x20AC" no_put_options null_server token_client clock0] s
    by (simp add: validateKey_k truthy_opt_num_def no_put_options_def null_server_def)
  with u m show ?thesis by simp
qed

text \<open>
  Claim C6 says that a binary buffer or a stream as the value makes \<^verbatim>\<open>put\<close> fail. Their
  \<^verbatim>\<open>typeof\<close> is \<^verbatim>\<open>'object'\<close>, so they take the branch of \<^verbatim>\<open>JSON.stringify\<close>, and \<^verbatim>\<open>put\<close> sends
  the string \<^verbatim>\<open>{}\<close> as the value.
\<close>

theorem put_array_buffer_is_stringified:
  "typeof (ArrayBuffer [0, 0, 0, 0]) = ''object''
   \<and> put token_client clock0 (ascii ''k'') (ArrayBuffer [0, 0, 0, 0]) no_put_options null_server
     = (Inr (), [bulk_request token_client
          \<lparr>item_expiration = None, item_expiration_ttl = None, item_key = ascii ''k'',
           item_value = ascii ''{}'', item_metadata = None\<rparr>])
   \<and> put token_client clock0 (ascii ''k'') (ReadableStream [1, 2, 3]) no_put_options null_server
     = (Inr (), [bulk_request token_client
          \<lparr>item_expiration = None, item_expiration_ttl = None, item_key = ascii ''k'',
           item_value = ascii ''{}'', item_metadata = None\<rparr>])"
proof -
  have s: "put_check_sizes (Some (ascii ''{}'')) no_put_options = Inr (ascii ''{}'')"
    by (rule small_value_sizes) (simp_all add: ascii_def MAX_VALUE_SIZE_def no_put_options_def)
  have a: "put token_client clock0 (ascii ''k'') (ArrayBuffer [0, 0, 0, 0]) no_put_options null_server
     = (Inr (), [bulk_request token_client
          \<lparr>item_expiration = None, item_expiration_ttl = None, item_key = ascii ''k'',
           item_value = ascii ''{}'', item_metadata = None\<rparr>])"
    using put_no_expiration [of "ascii ''k''" "ArrayBuffer [0, 0, 0, 0]" "ascii ''{}''"
        no_put_options null_server token_client clock0] s
    by (simp add: validateKey_k truthy_opt_num_def no_put_options_def null_server_def)
  have b: "put token_client clock0 (ascii ''k'') (ReadableStream [1, 2, 3]) no_put_options null_server
     = (Inr (), [bulk_request token_client
          \<lparr>item_expiration = None, item_expiration_ttl = None, item_key = ascii ''k'',
           item_value = ascii ''{}'', item_metadata = None\<rparr>])"
    using put_no_expiration [of "ascii ''k''" "ReadableStream [1, 2, 3]" "ascii ''{}''"
        no_put_options null_server token_client clock0] s
    by (simp add: validateKey_k truthy_opt_num_def no_put_options_def null_server_def)
  from a b show ?thesis by simp
qed

subsection \<open>The checks of put, in order\<close>

lemma put_after_expiration:
  assumes "validateKey PUT key = Inr ()" "put_stored v = Inr stored"
  shows "put_expiration (put_now clock) options = Inl e \<Longrightarrow>
           put this clock key v options fetch = (Inl e, [])"
    and "put_expiration (put_now clock) options = Inr ex \<Longrightarrow>
         put_check_sizes stored options = Inl e \<Longrightarrow>
           put this clock key v options fetch = (Inl e, [])"
    and "put_expiration (put_now clock) options = Inr ex \<Longrightarrow>
         put_check_sizes stored options = Inr st \<Longrightarrow>
           snd (put this clock key v options fetch)
             = [bulk_request this
                 \<lparr>item_expiration = ex, item_expiration_ttl = normaliseInt (expirationTtl options),
                  item_key = key, item_value = st, item_metadata = metadata options\<rparr>]"
  using assms by (simp_all add: put_def Let_def split: option.splits)

lemma put_expiration_ttl:
  assumes "normaliseInt (expirationTtl options) = Some t" "truthy_num t"
  shows "put_expiration now options = map_sum id Some (put_check_ttl now options t)"
  using assms by (simp add: put_expiration_def truthy_opt_num_def)

text \<open>
  \<^verbatim>\<open>put\<close> with a TTL that normalises to a truthy number, on a valid key and an accepted
  value: outside the signed 32-bit range the \<^verbatim>\<open>TypeError\<close> that names the range; else, when
  not above 0, the error of status 400 that asks for an integer greater than 0; else, below
  60, the error of status 400 that names the floor; all three before any request. Otherwise,
  once the sizes pass, the one request carries \<^verbatim>\<open>expiration = now + ttl\<close> and
  \<^verbatim>\<open>expiration_ttl = ttl\<close>.
\<close>

theorem put_truthy_ttl_checks:
  assumes "validateKey PUT key = Inr ()" "put_stored v = Inr stored"
    "normaliseInt (expirationTtl options) = Some t" "truthy_num t"
  shows "(js_lt t MIN_EXPIRATION \<or> js_gt t MAX_EXPIRATION \<longrightarrow>
            put this clock key v options fetch = (Inl (TypeError out_of_range_message), []))
       \<and> (\<not> (js_lt t MIN_EXPIRATION \<or> js_gt t MAX_EXPIRATION) \<and> js_le t (Fin 0) \<longrightarrow>
            put this clock key v options fetch
              = (Inl (throwKVError PUT 400 (ttl_positive_message options)), []))
       \<and> (\<not> (js_lt t MIN_EXPIRATION \<or> js_gt t MAX_EXPIRATION) \<and> \<not> js_le t (Fin 0)
            \<and> js_lt t MIN_CACHE_TTL \<longrightarrow>
            put this clock key v options fetch
              = (Inl (throwKVError PUT 400 (ttl_floor_message options)), []))
       \<and> (\<not> (js_lt t MIN_EXPIRATION \<or> js_gt t MAX_EXPIRATION) \<and> \<not> js_le t (Fin 0)
            \<and> \<not> js_lt t MIN_CACHE_TTL \<longrightarrow>
            (\<forall>st. put_check_sizes stored options = Inr st \<longrightarrow>
               snd (put this clock key v options fetch)
                 = [bulk_request this
                     \<lparr>item_expiration = Some (js_add (put_now clock) t),
                      item_expiration_ttl = Some t, item_key = key, item_value = st,
                      item_metadata = metadata options\<rparr>]))"
proof -
  have n: "\<not> isNaN t"
    using assms(4) by (simp add: truthy_num_def isNaN_def)
  have e: "put_expiration (put_now clock) options
             = map_sum id Some (put_check_ttl (put_now clock) options t)"
    using assms(3,4) by (rule put_expiration_ttl)
  have a: "put this clock key v options fetch = (Inl (TypeError out_of_range_message), [])"
    if "js_lt t MIN_EXPIRATION \<or> js_gt t MAX_EXPIRATION"
    using that put_after_expiration(1) [OF assms(1,2), of clock options] e
    by (simp add: put_check_ttl_def)
  have b: "put this clock key v options fetch
              = (Inl (throwKVError PUT 400 (ttl_positive_message options)), [])"
    if "\<not> (js_lt t MIN_EXPIRATION \<or> js_gt t MAX_EXPIRATION) \<and> js_le t (Fin 0)"
    using that put_after_expiration(1) [OF assms(1,2), of clock options] e
    by (simp add: put_check_ttl_def)
  have c: "put this clock key v options fetch
              = (Inl (throwKVError PUT 400 (ttl_floor_message options)), [])"
    if "\<not> (js_lt t MIN_EXPIRATION \<or> js_gt t MAX_EXPIRATION) \<and> \<not> js_le t (Fin 0)
            \<and> js_lt t MIN_CACHE_TTL"
    using that n put_after_expiration(1) [OF assms(1,2), of clock options] e
    by (simp add: put_check_ttl_def)
  have d: "snd (put this clock key v options fetch)
                 = [bulk_request this
                     \<lparr>item_expiration = Some (js_add (put_now clock) t),
                      item_expiration_ttl = Some t, item_key = key, item_value = st,
                      item_metadata = metadata options\<rparr>]"
    if "\<not> (js_lt t MIN_EXPIRATION \<or> js_gt t MAX_EXPIRATION) \<and> \<not> js_le t (Fin 0)
            \<and> \<not> js_lt t MIN_CACHE_TTL" "put_check_sizes stored options = Inr st" for st
  proof -
    have "put_expiration (put_now clock) options = Inr (Some (js_add (put_now clock) t))"
      using that(1) n e by (simp add: put_check_ttl_def)
    then show ?thesis
      using put_after_expiration(3) [OF assms(1,2), of clock options _ st] that(2) assms(3)
      by simp
  qed
  from a b c d show ?thesis by blast
qed

lemma put_now_clock0: "put_now clock0 = Fin 1700000000"
proof -
  have "\<lfloor>(1700000000123 / 1000 :: rat) + 1 / 2\<rfloor> = 1700000000"
    by (rule floor_unique) simp_all
  then show ?thesis
    by (simp add: put_now_def clock0_def)
qed


text \<open>
  The \<^verbatim>\<open>now\<close> of \<^verbatim>\<open>put\<close> is a whole number of seconds, at most half a second away from the
  clock.
\<close>

lemma put_now_near_clock:
  "\<exists>n. put_now clock = Fin (of_int n) \<and> \<bar>(of_int n :: rat) - of_int clock / 1000\<bar> \<le> 1 / 2"
proof -
  define x :: rat where "x = of_int clock / 1000 + 1 / 2"
  have "of_int \<lfloor>x\<rfloor> \<le> x" "x < of_int \<lfloor>x\<rfloor> + 1"
    by linarith+
  then have "\<bar>(of_int \<lfloor>x\<rfloor> :: rat) - of_int clock / 1000\<bar> \<le> 1 / 2"
    unfolding x_def by linarith
  moreover have "put_now clock = Fin (of_int \<lfloor>x\<rfloor>)"
    by (simp add: put_now_def x_def)
  ultimately show ?thesis by blast
qed

lemma stringify_name_a:
  "stringify_json name_a = ascii (''{'' @ dq @ ''name'' @ dq @ '':'' @ dq @ ''a'' @ dq @ ''}'')"
  by (simp add: name_a_def ascii_def dq_def quote_def quote_unit_def is_high_surrogate_def
      is_low_surrogate_def own_properties_def is_array_index_def is_digit_def)

theorem put_truthy_ttl_checks_witness:
  "snd (put token_client clock0 (ascii ''user:42'') (JS name_a)
          (no_put_options\<lparr>expirationTtl := PNumber (Fin 3600)\<rparr>) null_server)
     = [bulk_request token_client
          \<lparr>item_expiration = Some (Fin 1700003600), item_expiration_ttl = Some (Fin 3600),
           item_key = ascii ''user:42'',
           item_value = ascii (''{'' @ dq @ ''name'' @ dq @ '':'' @ dq @ ''a'' @ dq @ ''}''),
           item_metadata = None\<rparr>]"
proof -
  have k: "validateKey PUT (ascii ''user:42'') = Inr ()"
    by (simp add: validateKey_def ascii_def unit_bytes_def is_high_surrogate_def MAX_KEY_SIZE_def)
  have st: "put_stored (JS name_a) = Inr (Some (stringify_json name_a))"
    by (simp add: name_a_def)
  have n: "normaliseInt (expirationTtl (no_put_options\<lparr>expirationTtl := PNumber (Fin 3600)\<rparr>))
             = Some (Fin 3600)"
    using Math_round_of_int [of 3600] by simp
  have t: "truthy_num (Fin 3600)"
    by (simp add: truthy_num_def)
  have r: "\<not> (js_lt (Fin 3600) MIN_EXPIRATION \<or> js_gt (Fin 3600) MAX_EXPIRATION)
           \<and> \<not> js_le (Fin 3600) (Fin 0) \<and> \<not> js_lt (Fin 3600) MIN_CACHE_TTL"
    by (simp add: MIN_EXPIRATION_def MAX_EXPIRATION_def MIN_CACHE_TTL_def js_gt_def js_le_def)
  have s: "put_check_sizes (Some (stringify_json name_a))
             (no_put_options\<lparr>expirationTtl := PNumber (Fin 3600)\<rparr>)
           = Inr (stringify_json name_a)"
    by (rule small_value_sizes)
      (simp_all add: stringify_name_a ascii_def dq_def MAX_VALUE_SIZE_def no_put_options_def)
  have m: "metadata (no_put_options\<lparr>expirationTtl := PNumber (Fin 3600)\<rparr>) = None"
    by (simp add: no_put_options_def)
  have a: "js_add (put_now clock0) (Fin 3600) = Fin 1700003600"
    by (simp add: put_now_clock0)
  show ?thesis
    using put_truthy_ttl_checks [OF k st n t, of token_client clock0 null_server] r s
    unfolding m a stringify_name_a by blast
qed


lemma put_expiration_absolute:
  assumes "\<not> truthy_opt_num (normaliseInt (expirationTtl options))"
    "normaliseInt (expiration options) = Some e"
  shows "put_expiration now options = map_sum id Some (put_check_expiration now options e)"
  using assms by (simp add: put_expiration_def)

text \<open>
  \<^verbatim>\<open>put\<close> with no truthy TTL and an \<^verbatim>\<open>expiration\<close> that is not \<^verbatim>\<open>undefined\<close>: outside the
  signed 32-bit range the \<^verbatim>\<open>TypeError\<close>; else, when NaN or not after \<^verbatim>\<open>now\<close>, the error of
  status 400 that asks for a time in the future; else, before \<^verbatim>\<open>now + 60\<close>, the error of status
  400 that names the floor; all before any request. Otherwise the request carries the
  expiration as given.
\<close>

theorem put_absolute_expiration_checks:
  assumes "validateKey PUT key = Inr ()" "put_stored v = Inr stored"
    "\<not> truthy_opt_num (normaliseInt (expirationTtl options))"
    "normaliseInt (expiration options) = Some e"
  shows "(js_lt e MIN_EXPIRATION \<or> js_gt e MAX_EXPIRATION \<longrightarrow>
            put this clock key v options fetch = (Inl (TypeError out_of_range_message), []))
       \<and> (\<not> (js_lt e MIN_EXPIRATION \<or> js_gt e MAX_EXPIRATION)
            \<and> (isNaN e \<or> js_le e (put_now clock)) \<longrightarrow>
            put this clock key v options fetch
              = (Inl (throwKVError PUT 400 (expiration_future_message options)), []))
       \<and> (\<not> (js_lt e MIN_EXPIRATION \<or> js_gt e MAX_EXPIRATION)
            \<and> \<not> (isNaN e \<or> js_le e (put_now clock))
            \<and> js_lt e (js_add (put_now clock) MIN_CACHE_TTL) \<longrightarrow>
            put this clock key v options fetch
              = (Inl (throwKVError PUT 400 (expiration_floor_message options)), []))
       \<and> (\<not> (js_lt e MIN_EXPIRATION \<or> js_gt e MAX_EXPIRATION)
            \<and> \<not> (isNaN e \<or> js_le e (put_now clock))
            \<and> \<not> js_lt e (js_add (put_now clock) MIN_CACHE_TTL) \<longrightarrow>
            (\<forall>st. put_check_sizes stored options = Inr st \<longrightarrow>
               snd (put this clock key v options fetch)
                 = [bulk_request this
                     \<lparr>item_expiration = Some e,
                      item_expiration_ttl = normaliseInt (expirationTtl options),
                      item_key = key, item_value = st, item_metadata = metadata options\<rparr>]))"
proof -
  have x: "put_expiration (put_now clock) options
             = map_sum id Some (put_check_expiration (put_now clock) options e)"
    using assms(3,4) by (rule put_expiration_absolute)
  have a: "put this clock key v options fetch = (Inl (TypeError out_of_range_message), [])"
    if "js_lt e MIN_EXPIRATION \<or> js_gt e MAX_EXPIRATION"
    using that put_after_expiration(1) [OF assms(1,2), of clock options] x
    by (simp add: put_check_expiration_def)
  have b: "put this clock key v options fetch
              = (Inl (throwKVError PUT 400 (expiration_future_message options)), [])"
    if "\<not> (js_lt e MIN_EXPIRATION \<or> js_gt e MAX_EXPIRATION)
            \<and> (isNaN e \<or> js_le e (put_now clock))"
    using that put_after_expiration(1) [OF assms(1,2), of clock options] x
    by (simp add: put_check_expiration_def)
  have c: "put this clock key v options fetch
              = (Inl (throwKVError PUT 400 (expiration_floor_message options)), [])"
    if "\<not> (js_lt e MIN_EXPIRATION \<or> js_gt e MAX_EXPIRATION)
            \<and> \<not> (isNaN e \<or> js_le e (put_now clock))
            \<and> js_lt e (js_add (put_now clock) MIN_CACHE_TTL)"
    using that put_after_expiration(1) [OF assms(1,2), of clock options] x
    by (simp add: put_check_expiration_def)
  have d: "snd (put this clock key v options fetch)
                 = [bulk_request this
                     \<lparr>item_expiration = Some e,
                      item_expiration_ttl = normaliseInt (expirationTtl options),
                      item_key = key, item_value = st, item_metadata = metadata options\<rparr>]"
    if "\<not> (js_lt e MIN_EXPIRATION \<or> js_gt e MAX_EXPIRATION)
            \<and> \<not> (isNaN e \<or> js_le e (put_now clock))
            \<and> \<not> js_lt e (js_add (put_now clock) MIN_CACHE_TTL)"
       "put_check_sizes stored options = Inr st" for st
  proof -
    have "put_expiration (put_now clock) options = Inr (Some e)"
      using that(1) x by (simp add: put_check_expiration_def)
    then show ?thesis
      using put_after_expiration(3) [OF assms(1,2), of clock options _ st] that(2) by simp
  qed
  from a b c d show ?thesis by blast
qed

theorem put_absolute_expiration_checks_witness:
  "put token_client clock0 (ascii ''k'') (JS (JStr (ascii ''v'')))
     (no_put_options\<lparr>expiration := PNumber (Fin 1700000030)\<rparr>) null_server
   = (Inl (throwKVError PUT 400
        (expiration_floor_message (no_put_options\<lparr>expiration := PNumber (Fin 1700000030)\<rparr>))), [])"
proof -
  have st: "put_stored (JS (JStr (ascii ''v''))) = Inr (Some (ascii ''v''))"
    by simp
  have nt: "\<not> truthy_opt_num (normaliseInt (expirationTtl
              (no_put_options\<lparr>expiration := PNumber (Fin 1700000030)\<rparr>)))"
    by (simp add: no_put_options_def truthy_opt_num_def)
  have ne: "normaliseInt (expiration (no_put_options\<lparr>expiration := PNumber (Fin 1700000030)\<rparr>))
              = Some (Fin 1700000030)"
    using Math_round_of_int [of 1700000030] by simp
  have r: "\<not> (js_lt (Fin 1700000030) MIN_EXPIRATION \<or> js_gt (Fin 1700000030) MAX_EXPIRATION)
            \<and> \<not> (isNaN (Fin 1700000030) \<or> js_le (Fin 1700000030) (put_now clock0))
            \<and> js_lt (Fin 1700000030) (js_add (put_now clock0) MIN_CACHE_TTL)"
    by (simp add: MIN_EXPIRATION_def MAX_EXPIRATION_def MIN_CACHE_TTL_def js_gt_def js_le_def
        isNaN_def put_now_clock0)
  show ?thesis
    using put_absolute_expiration_checks [OF validateKey_k st nt ne, of token_client clock0 null_server]
      r by blast
qed

lemma put_after_stored:
  assumes "validateKey PUT key = Inr ()"
  shows "put_stored v = Inl e \<Longrightarrow> put this clock key v options fetch = (Inl e, [])"
  using assms by (simp add: put_def)

text \<open>
  The value of \<^verbatim>\<open>put\<close>: a string is stored as it is, an object or an array as its
  \<^verbatim>\<open>JSON.stringify\<close>, and a value whose \<^verbatim>\<open>typeof\<close> is neither \<^verbatim>\<open>'string'\<close> nor \<^verbatim>\<open>'object'\<close> (a
  number, a boolean, \<^verbatim>\<open>undefined\<close>) is answered with the \<^verbatim>\<open>TypeError\<close> before any request.
\<close>

theorem put_value_types:
  "put_stored (JS (JStr s)) = Inr (Some s)
   \<and> put_stored (JS (JObj fs)) = Inr (Some (stringify_json (JObj fs)))
   \<and> put_stored (JS (JArr xs)) = Inr (Some (stringify_json (JArr xs)))
   \<and> (validateKey PUT key = Inr () \<and> typeof v \<noteq> ''string'' \<and> typeof v \<noteq> ''object'' \<longrightarrow>
        put this clock key v options fetch = (Inl (TypeError put_value_message), []))"
proof -
  have "put_stored v = Inl (TypeError put_value_message)"
    if "typeof v \<noteq> ''string''" "typeof v \<noteq> ''object''"
    using that by (cases v rule: put_stored.cases) simp_all
  then show ?thesis
    using put_after_stored by simp
qed

theorem put_value_types_witness:
  "put token_client clock0 (ascii ''k'') (JS (JNum 5)) no_put_options null_server
     = (Inl (TypeError put_value_message), [])
   \<and> put token_client clock0 (ascii ''k'') Undefined no_put_options null_server
     = (Inl (TypeError put_value_message), [])"
  using put_value_types [of _ _ _ "ascii ''k''" "JS (JNum 5)" token_client clock0 no_put_options null_server]
    put_value_types [of _ _ _ "ascii ''k''" Undefined token_client clock0 no_put_options null_server]
    validateKey_k
  by simp

text \<open>
  The sizes in \<^verbatim>\<open>put\<close>, once the key, the value and the expiration have passed: a stored
  string of more than 26,214,400 code units is answered with the error of status 413 that
  holds its length and the limit; else a truthy metadata whose serialisation has more than
  1024 code units with the error of status 413 that holds that length and the limit; both
  before any request. Otherwise the request is issued.
\<close>

theorem put_size_checks:
  assumes "validateKey PUT key = Inr ()" "put_stored v = Inr (Some st)"
    "put_expiration (put_now clock) options = Inr ex"
  shows "(length st > MAX_VALUE_SIZE \<longrightarrow>
            put this clock key v options fetch
              = (Inl (throwKVError PUT 413 (value_length_message (length st))), []))
       \<and> (\<forall>m. length st \<le> MAX_VALUE_SIZE \<and> metadata options = Some m \<and> truthy_json m
               \<and> length (stringify_json m) > MAX_METADATA_SIZE \<longrightarrow>
            put this clock key v options fetch
              = (Inl (throwKVError PUT 413 (metadata_length_message (length (stringify_json m)))), []))
       \<and> (length st \<le> MAX_VALUE_SIZE
            \<and> (\<forall>m. metadata options = Some m \<and> truthy_json m \<longrightarrow>
                   length (stringify_json m) \<le> MAX_METADATA_SIZE) \<longrightarrow>
            snd (put this clock key v options fetch)
              = [bulk_request this
                   \<lparr>item_expiration = ex, item_expiration_ttl = normaliseInt (expirationTtl options),
                    item_key = key, item_value = st, item_metadata = metadata options\<rparr>])"
proof (intro conjI impI allI)
  assume "length st > MAX_VALUE_SIZE"
  then have "put_check_sizes (Some st) options
               = Inl (throwKVError PUT 413 (value_length_message (length st)))"
    by (simp add: put_check_sizes_def)
  then show "put this clock key v options fetch
              = (Inl (throwKVError PUT 413 (value_length_message (length st))), [])"
    using put_after_expiration(2) [OF assms(1,2,3)] by simp
next
  fix m
  assume "length st \<le> MAX_VALUE_SIZE \<and> metadata options = Some m \<and> truthy_json m
               \<and> length (stringify_json m) > MAX_METADATA_SIZE"
  then have "put_check_sizes (Some st) options
               = Inl (throwKVError PUT 413 (metadata_length_message (length (stringify_json m))))"
    by (auto simp: put_check_sizes_def Let_def)
  then show "put this clock key v options fetch
              = (Inl (throwKVError PUT 413 (metadata_length_message (length (stringify_json m)))), [])"
    using put_after_expiration(2) [OF assms(1,2,3)] by simp
next
  assume "length st \<le> MAX_VALUE_SIZE
            \<and> (\<forall>m. metadata options = Some m \<and> truthy_json m \<longrightarrow>
                   length (stringify_json m) \<le> MAX_METADATA_SIZE)"
  then have "put_check_sizes (Some st) options = Inr st"
    by (auto simp: put_check_sizes_def Let_def split: option.splits)
  then show "snd (put this clock key v options fetch)
              = [bulk_request this
                   \<lparr>item_expiration = ex, item_expiration_ttl = normaliseInt (expirationTtl options),
                    item_key = key, item_value = st, item_metadata = metadata options\<rparr>]"
    using put_after_expiration(3) [OF assms(1,2,3)] by simp
qed

lemma quote_units_replicate:
  assumes "quote_unit c = [c]" "\<not> is_high_surrogate c"
  shows "quote_units (replicate n c) = replicate n c"
proof (induction n rule: less_induct)
  case (less n)
  show ?case
  proof (cases n)
    case 0
    then show ?thesis by simp
  next
    case (Suc m)
    show ?thesis
    proof (cases m)
      case 0
      with Suc assms show ?thesis by simp
    next
      case (Suc k)
      have "quote_units (replicate (Suc k) c) = replicate (Suc k) c"
        using less.IH [of "Suc k"] \<open>n = Suc m\<close> Suc by simp
      then show ?thesis
        using assms \<open>n = Suc m\<close> Suc by simp
    qed
  qed
qed

theorem put_size_checks_witness:
  "put token_client clock0 (ascii ''k'') (JS (JStr (replicate 26214401 0x61))) no_put_options
     null_server
     = (Inl (throwKVError PUT 413 (value_length_message 26214401)), [])
   \<and> put token_client clock0 (ascii ''k'') (JS (JStr (ascii ''v'')))
       (no_put_options\<lparr>metadata := Some (JStr (replicate 1023 0x61))\<rparr>) null_server
     = (Inl (throwKVError PUT 413 (metadata_length_message 1025)), [])"
proof -
  have e: "put_expiration (put_now clock0) (no_put_options\<lparr>metadata := m\<rparr>) = Inr None" for m
    by (simp add: put_expiration_def no_put_options_def truthy_opt_num_def)
  have e0: "put_expiration (put_now clock0) no_put_options = Inr None"
    by (simp add: put_expiration_def no_put_options_def truthy_opt_num_def)
  have q: "length (quote (replicate 1023 0x61)) = 1025"
    by (simp add: quote_def quote_units_replicate quote_unit_def is_high_surrogate_def
        is_low_surrogate_def)
  have a: "put token_client clock0 (ascii ''k'') (JS (JStr (replicate 26214401 0x61))) no_put_options
     null_server
     = (Inl (throwKVError PUT 413 (value_length_message 26214401)), [])"
    using put_size_checks [of "ascii ''k''" "JS (JStr (replicate 26214401 0x61))"
        "replicate 26214401 0x61" clock0 no_put_options None token_client null_server]
      validateKey_k e0 by (simp add: MAX_VALUE_SIZE_def)
  have b: "put token_client clock0 (ascii ''k'') (JS (JStr (ascii ''v'')))
       (no_put_options\<lparr>metadata := Some (JStr (replicate 1023 0x61))\<rparr>) null_server
     = (Inl (throwKVError PUT 413 (metadata_length_message 1025)), [])"
    using put_size_checks [of "ascii ''k''" "JS (JStr (ascii ''v''))" "ascii ''v''" clock0
        "no_put_options\<lparr>metadata := Some (JStr (replicate 1023 0x61))\<rparr>" None token_client null_server]
      validateKey_k e [of "Some (JStr (replicate 1023 0x61))"]
    by (simp add: q MAX_VALUE_SIZE_def MAX_METADATA_SIZE_def ascii_def no_put_options_def)
  from a b show ?thesis by simp
qed

text \<open>
  \<^verbatim>\<open>delete\<close> on a valid key issues one DELETE to \<^verbatim>\<open>/values/{key}\<close> and succeeds whatever the
  response is.
\<close>

theorem delete_succeeds:
  assumes "validateKey DELETE key = Inr ()" "fetch (values_request this DELETE key) = Some r"
  shows "delete this key fetch = (Inr (), [values_request this DELETE key])"
  using assms by (simp add: delete_def)

theorem delete_succeeds_witness:
  "delete token_client (ascii ''k'') not_found_server
     = (Inr (), [values_request token_client DELETE (ascii ''k'')])"
  using delete_succeeds [of "ascii ''k''" not_found_server token_client not_found_response]
    validateKey_k by (simp add: not_found_server_def)

end
